theory Spec2Isabelle
  imports Complex_Main
begin

section \<open>The construct library's values\<close>

text \<open>
  The stack of \<^verbatim>\<open>lib/easy-cerver.ts\<close> is a constructor: it reads its properties and
  declares resources through the construct library. The model keeps what the constructor
  passes to each library call, field by field. An option the source leaves out is
  \<open>None\<close>; a value that only exists at deployment (a region, an ARN, a looked-up zone)
  is read from a record of resolved values.
\<close>

datatype RemovalPolicy = DESTROY | RETAIN | SNAPSHOT

datatype SubnetType = PUBLIC | PRIVATE_WITH_NAT | PRIVATE_ISOLATED

datatype AmiHardwareType = STANDARD | GPU | ARM

datatype Protocol = TCP | UDP

datatype ContainerDependencyCondition = START | COMPLETE | SUCCESS | HEALTHY

datatype Effect = ALLOW | DENY

datatype RetentionDays = ONE_YEAR | TWO_YEARS | INFINITE

datatype SubscriptionProtocol = EMAIL | SMS | HTTPS

datatype IntegrationPattern = REQUEST_RESPONSE | RUN_JOB | WAIT_FOR_TASK_TOKEN

datatype Duration = seconds int | days int

datatype Peer =
    anyIpv4
  | anyIpv6
  | ipv4 string
  | ipv6 string
  | connectionsOf string
    \<comment> \<open>the security groups behind the connections of the construct of that id\<close>

datatype Port = tcp nat

datatype Connection = allowFrom Peer Port | allowTo Peer Port

definition allowFromAnyIpv4 :: "Port \<Rightarrow> Connection" where
  "allowFromAnyIpv4 p = allowFrom anyIpv4 p"

datatype IVpc =
    SuppliedVpc string
  | Vpc string nat "(string \<times> SubnetType) list"
    \<comment> \<open>construct id, natGateways, subnetConfiguration (name, subnetType)\<close>

datatype SecurityGroup =
    SuppliedSecurityGroup string
  | NewSecurityGroup string IVpc bool
    \<comment> \<open>construct id, vpc, allowAllOutbound\<close>

datatype ILogGroup =
    SuppliedLogGroup string
  | LogGroup string RetentionDays RemovalPolicy
    \<comment> \<open>construct id, retention, removalPolicy\<close>

datatype ContainerImage = fromRegistry string | fromAsset string

record PolicyStatement =
  effect :: Effect
  actions :: "string list"
  resources :: "string list"

datatype RolePolicy =
    Statement PolicyStatement
  | Grant string "string list"
    \<comment> \<open>a grant on the named resource: its construct id and the actions\<close>
  | GrantExecution string "string list"
    \<comment> \<open>a grant on the executions of the named state machine\<close>
  | GrantStartExecution string

subsection \<open>Task definitions\<close>

record PortMapping =
  hostPort :: nat
  containerPort :: nat
  protocol :: Protocol

record MountPoint =
  sourceVolume :: string
  containerPath :: string
  readOnly :: bool

record ContainerDependency =
  container :: nat
  condition :: ContainerDependencyCondition

record Volume =
  volumeName :: string
  efsFileSystemId :: string

record AwsLogs =
  logs_logGroup :: ILogGroup
  streamPrefix :: string

text \<open>
  A JavaScript string that may be \<^verbatim>\<open>undefined\<close> (the element \<^verbatim>\<open>records[0]\<close> of an empty
  array) is a \<open>string option\<close>, \<open>None\<close> being \<^verbatim>\<open>undefined\<close>.
\<close>

record ContainerDefinitionOptions =
  cd_image :: ContainerImage
  containerName :: "string option"
  memoryReservationMiB :: "nat option"
  entryPoint :: "string list option"
  command :: "string option list option"
  essential :: "bool option"
  environment :: "(string \<times> string option) list"
  logging :: "AwsLogs option"

record ContainerDefinition =
  cd_id :: string
  cd_props :: ContainerDefinitionOptions
  portMappings :: "PortMapping list"
  mountPoints :: "MountPoint list"
  containerDependencies :: "ContainerDependency list"

text \<open>
  A task definition owns its containers; a reference to one of them (the default
  container, the target of a dependency) is its position in \<open>containers\<close>.
\<close>

record Ec2TaskDefinition =
  td_id :: string
  containers :: "ContainerDefinition list"
  defaultContainer :: "nat option"
  volumes :: "Volume list"
  taskRole :: "RolePolicy list"

definition Ec2TaskDefinition :: "string \<Rightarrow> Ec2TaskDefinition" where
  "Ec2TaskDefinition cid =
     \<lparr>td_id = cid, containers = [], defaultContainer = None, volumes = [], taskRole = []\<rparr>"

text \<open>
  \<^verbatim>\<open>addContainer\<close> appends the container and returns it. The library makes the first
  essential container the default container; \<^verbatim>\<open>essential\<close> left out counts as true.
\<close>

definition addContainer ::
  "Ec2TaskDefinition \<Rightarrow> string \<Rightarrow> ContainerDefinitionOptions \<Rightarrow> Ec2TaskDefinition \<times> nat" where
  "addContainer td cid opts =
     (let i = length (containers td);
          c = \<lparr>cd_id = cid, cd_props = opts, portMappings = [], mountPoints = [],
               containerDependencies = []\<rparr>
      in (td\<lparr>containers := containers td @ [c],
             defaultContainer :=
               (case defaultContainer td of
                  Some d \<Rightarrow> Some d
                | None \<Rightarrow> if essential opts = Some False then None else Some i)\<rparr>, i))"

definition update_container ::
  "Ec2TaskDefinition \<Rightarrow> nat \<Rightarrow> (ContainerDefinition \<Rightarrow> ContainerDefinition) \<Rightarrow> Ec2TaskDefinition" where
  "update_container td i f =
     (if i < length (containers td)
      then td\<lparr>containers := (containers td)[i := f (containers td ! i)]\<rparr>
      else td)"

definition addPortMappings ::
  "Ec2TaskDefinition \<Rightarrow> nat \<Rightarrow> PortMapping list \<Rightarrow> Ec2TaskDefinition" where
  "addPortMappings td i pms =
     update_container td i (\<lambda>c. c\<lparr>portMappings := portMappings c @ pms\<rparr>)"

definition addMountPoints ::
  "Ec2TaskDefinition \<Rightarrow> nat \<Rightarrow> MountPoint \<Rightarrow> Ec2TaskDefinition" where
  "addMountPoints td i mp =
     update_container td i (\<lambda>c. c\<lparr>mountPoints := mountPoints c @ [mp]\<rparr>)"

definition addContainerDependencies ::
  "Ec2TaskDefinition \<Rightarrow> nat \<Rightarrow> ContainerDependency \<Rightarrow> Ec2TaskDefinition" where
  "addContainerDependencies td i dep =
     update_container td i (\<lambda>c. c\<lparr>containerDependencies := containerDependencies c @ [dep]\<rparr>)"

definition addVolume :: "Ec2TaskDefinition \<Rightarrow> Volume \<Rightarrow> Ec2TaskDefinition" where
  "addVolume td v = td\<lparr>volumes := volumes td @ [v]\<rparr>"

definition addToTaskRolePolicy :: "Ec2TaskDefinition \<Rightarrow> PolicyStatement \<Rightarrow> Ec2TaskDefinition" where
  "addToTaskRolePolicy td st = td\<lparr>taskRole := taskRole td @ [Statement st]\<rparr>"

definition grant :: "string \<Rightarrow> Ec2TaskDefinition \<Rightarrow> string list \<Rightarrow> Ec2TaskDefinition" where
  "grant resource td acts = td\<lparr>taskRole := taskRole td @ [Grant resource acts]\<rparr>"

definition grantExecution :: "string \<Rightarrow> Ec2TaskDefinition \<Rightarrow> string list \<Rightarrow> Ec2TaskDefinition" where
  "grantExecution machine td acts = td\<lparr>taskRole := taskRole td @ [GrantExecution machine acts]\<rparr>"

definition grantStartExecution :: "string \<Rightarrow> Ec2TaskDefinition \<Rightarrow> Ec2TaskDefinition" where
  "grantStartExecution machine td = td\<lparr>taskRole := taskRole td @ [GrantStartExecution machine]\<rparr>"

subsection \<open>The workflow definition\<close>

datatype TaskInput = fromJsonPathAt string

datatype LaunchTarget = EcsEc2LaunchTarget | EcsFargateLaunchTarget

datatype StateKind =
    EcsRunTask string string LaunchTarget IntegrationPattern
    \<comment> \<open>cluster, taskDefinition, launchTarget, integrationPattern\<close>
  | SnsPublish string TaskInput
    \<comment> \<open>topic, message\<close>
  | Fail

record RetryProps =
  retry_errors :: "string list option"
  interval :: "Duration option"
  maxAttempts :: "nat option"
  backoffRate :: "rat option"

record CatchProps =
  catch_errors :: "string list option"
  resultPath :: "string option"

record State =
  st_id :: string
  st_kind :: StateKind
  st_retries :: "RetryProps list"
  st_catches :: "(CatchProps \<times> string) list"
  st_next :: "string option"

definition new_state :: "string \<Rightarrow> StateKind \<Rightarrow> State" where
  "new_state cid k =
     \<lparr>st_id = cid, st_kind = k, st_retries = [], st_catches = [], st_next = None\<rparr>"

text \<open>
  \<^verbatim>\<open>a.next(b)\<close> is the chain that starts at \<open>a\<close> and goes on to \<open>b\<close>: a chain is its
  start state and the states after it. \<^verbatim>\<open>addCatch(handler)\<close> with no second argument
  passes the empty properties; the catcher leads to the start of the handler chain.
\<close>

definition next_state :: "State \<Rightarrow> State \<Rightarrow> State \<times> State list" where
  "next_state a b = (a\<lparr>st_next := Some (st_id b)\<rparr>, [b])"

definition addCatch :: "State \<Rightarrow> State \<times> State list \<Rightarrow> CatchProps \<Rightarrow> State" where
  "addCatch st handler props =
     st\<lparr>st_catches := st_catches st @ [(props, st_id (fst handler))]\<rparr>"

definition addRetry :: "State \<Rightarrow> RetryProps \<Rightarrow> State" where
  "addRetry st props = st\<lparr>st_retries := st_retries st @ [props]\<rparr>"

record StateMachine =
  sm_id :: string
  startAt :: string
  states :: "State list"

subsection \<open>The other resources\<close>

record MachineImage =
  hardwareType :: AmiHardwareType
  cachedInContext :: bool

record AutoScalingGroup =
  asg_id :: string
  machineImage :: MachineImage
  instanceType :: string
  spotPrice :: "string option"
  vpcSubnets :: SubnetType
  associatePublicIpAddress :: bool
  minCapacity :: nat
  maxCapacity :: nat
  asg_securityGroups :: "SecurityGroup list"
  asg_connections :: "Connection list"
  managedPolicies :: "string list"
  principalPolicy :: "PolicyStatement list"
  userData :: "string list"

record Cluster =
  cl_id :: string
  cl_vpc :: IVpc
  containerInsights :: bool

record CfnEIP =
  eip_id :: string
  tags :: "(string \<times> string) list"

record FileSystem =
  fs_id :: string
  fs_vpc :: IVpc
  encrypted :: bool
  fs_securityGroup :: SecurityGroup
  fs_removalPolicy :: RemovalPolicy
  fs_connections :: "Connection list"

record HostedZone =
  zoneName :: string
  hostedZoneArn :: string

record ARecord =
  ar_id :: string
  zone :: HostedZone
  recordName :: string
  target :: "string list"

record Topic =
  topic_id :: string

record Subscription =
  sub_id :: string
  sub_topic :: string
  sub_protocol :: SubscriptionProtocol
  endpoint :: string

record Rule =
  rule_id :: string
  schedule :: Duration
  targets :: "string list"

record Ec2Service =
  svc_id :: string
  svc_cluster :: string
  svc_taskDefinition :: string
  desiredCount :: nat
  minHealthyPercent :: nat
  maxHealthyPercent :: nat
  circuitBreaker_rollback :: bool
  enableExecuteCommand :: bool

section \<open>The properties and the resolved values\<close>

record EasyCerverProps =
  hostedZoneDomain :: string
  email :: string
  recordDomainNames :: "string list option"
  vpc :: "IVpc option"
  securityGroup :: "SecurityGroup option"
  hostInstanceType :: "string option"
  hostInstanceSpotPrice :: "string option"
  logGroup :: "ILogGroup option"
  certbotDockerTag :: "string option"
  certbotScheduleInterval :: "int option"
  awsCliDockerTag :: "string option"
  removalPolicy :: "RemovalPolicy option"
  serverTaskDefinition :: "Ec2TaskDefinition option"

text \<open>
  What the toolkit and the deployment resolve: the stack's region, the unique id of the
  address resource, the hosted zone a lookup of a domain finds, and the references to the
  address, the filesystem and the state machine.
\<close>

record Env =
  region :: string
  uniqueId :: string
  fromLookup :: "string \<Rightarrow> HostedZone"
  hostInstanceIp_ref :: string
  fileSystemId :: string
  stateMachineArn :: string

text \<open>The operator \<^verbatim>\<open>a ?? b\<close>: \<open>b\<close> only where \<open>a\<close> is absent (an empty list or string is kept).\<close>

definition nullish :: "'a option \<Rightarrow> 'a \<Rightarrow> 'a" where
  "nullish a b = (case a of Some v \<Rightarrow> v | None \<Rightarrow> b)"

text \<open>\<^verbatim>\<open>xs[0]\<close>, \<^verbatim>\<open>xs.join(sep)\<close> and \<^verbatim>\<open>xs.flatMap(f)\<close> of a JavaScript array.\<close>

fun index0 :: "'a list \<Rightarrow> 'a option" where
  "index0 [] = None"
| "index0 (x # xs) = Some x"

fun join :: "string \<Rightarrow> string list \<Rightarrow> string" where
  "join sep [] = []"
| "join sep [x] = x"
| "join sep (x # y # ys) = x @ sep @ join sep (y # ys)"

definition flatMap :: "('a \<Rightarrow> 'b list) \<Rightarrow> 'a list \<Rightarrow> 'b list" where
  "flatMap f xs = concat (map f xs)"

section \<open>The constructor\<close>

text \<open>
  Each constant of the constructor is a definition of the same name, in the source's
  order. Where the name is also a property's, the constant is \<open>the_vpc\<close>, \<open>the_logGroup\<close>,
  and \<open>serverTask\<close> for \<^verbatim>\<open>serverTaskDefinition\<close>, whose first value is \<open>givenServerTask\<close>.
  \<open>hostAutoScalingGroup\<close> and \<open>certFileSystem\<close> are the two objects as the constructor
  leaves them; \<open>newHostAutoScalingGroup\<close> and \<open>newFileSystem\<close> are their first values.
\<close>

definition the_vpc :: "EasyCerverProps \<Rightarrow> IVpc" where
  "the_vpc props = nullish (vpc props) (Vpc ''Vpc'' 0 [(''PublicSubnet'', PUBLIC)])"

definition cluster :: "EasyCerverProps \<Rightarrow> Cluster" where
  "cluster props = \<lparr>cl_id = ''Cluster'', cl_vpc = the_vpc props, containerInsights = True\<rparr>"

definition awsCliTag :: "EasyCerverProps \<Rightarrow> string" where
  "awsCliTag props = nullish (awsCliDockerTag props) ''latest''"

definition tagUniqueId :: "Env \<Rightarrow> string" where
  "tagUniqueId env = uniqueId env"

text \<open>
  \<^verbatim>\<open>addCapacity\<close> makes the group with a security group of its own, which allows all
  outbound traffic; the group's connections are through it.
\<close>

definition addCapacity :: "EasyCerverProps \<Rightarrow> AutoScalingGroup" where
  "addCapacity props =
     \<lparr>asg_id = ''HostInstanceCapacity'',
      machineImage = \<lparr>hardwareType = STANDARD, cachedInContext = True\<rparr>,
      instanceType = nullish (hostInstanceType props) ''t2.micro'',
      spotPrice = hostInstanceSpotPrice props,
      vpcSubnets = PUBLIC,
      associatePublicIpAddress = True,
      minCapacity = 1,
      maxCapacity = 1,
      asg_securityGroups = [NewSecurityGroup ''InstanceSecurityGroup'' (the_vpc props) True],
      asg_connections = [],
      managedPolicies = [],
      principalPolicy = [],
      userData = []\<rparr>"

definition hostUserData :: "Env \<Rightarrow> EasyCerverProps \<Rightarrow> string list" where
  \<open>hostUserData env props =
     [''INSTANCE_ID=$(curl --silent http://169.254.169.254/latest/meta-data/instance-id)'',
      ''ALLOCATION_ID=$(docker run --net=host amazon/aws-cli:'' @ awsCliTag props
        @ '' ec2 describe-addresses --region '' @ region env
        @ '' --filter Name=tag:Name,Values='' @ tagUniqueId env
        @ '' --query '' @ [CHR 0x27] @ ''Addresses[].AllocationId'' @ [CHR 0x27]
        @ '' --output text | head)'',
      ''docker run --net=host amazon/aws-cli:'' @ awsCliTag props
        @ '' ec2 associate-address --region '' @ region env
        @ '' --instance-id "$INSTANCE_ID" --allocation-id "$ALLOCATION_ID" --allow-reassociation'']\<close>

text \<open>The host group as the statements up to \<^verbatim>\<open>addUserData\<close> leave it.\<close>

definition newHostAutoScalingGroup :: "Env \<Rightarrow> EasyCerverProps \<Rightarrow> AutoScalingGroup" where
  "newHostAutoScalingGroup env props =
     (let asg = addCapacity props;
          asg = (case securityGroup props of
                   Some sg \<Rightarrow> asg\<lparr>asg_securityGroups := asg_securityGroups asg @ [sg]\<rparr>
                 | None \<Rightarrow>
                     asg\<lparr>asg_connections := asg_connections asg @
                       [allowFromAnyIpv4 (tcp 80),
                        allowFromAnyIpv4 (tcp 443),
                        allowFrom anyIpv6 (tcp 80),
                        allowFrom anyIpv6 (tcp 443)]\<rparr>);
          asg = asg\<lparr>managedPolicies := managedPolicies asg @ [''AmazonSSMManagedInstanceCore'']\<rparr>;
          asg = asg\<lparr>principalPolicy := principalPolicy asg @
                  [\<lparr>effect = ALLOW,
                    actions = [''ec2:DescribeAddresses'', ''ec2:AssociateAddress''],
                    resources = [''*'']\<rparr>]\<rparr>
      in asg\<lparr>userData := userData asg @ hostUserData env props\<rparr>)"

definition hostInstanceIp :: "Env \<Rightarrow> CfnEIP" where
  "hostInstanceIp env = \<lparr>eip_id = ''HostInstanceIp'', tags = [(''Name'', tagUniqueId env)]\<rparr>"

definition newFileSystem :: "EasyCerverProps \<Rightarrow> FileSystem" where
  "newFileSystem props =
     \<lparr>fs_id = ''FileSystem'',
      fs_vpc = the_vpc props,
      encrypted = True,
      fs_securityGroup = NewSecurityGroup ''FileSystemSecurityGroup'' (the_vpc props) False,
      fs_removalPolicy = nullish (removalPolicy props) DESTROY,
      fs_connections = []\<rparr>"

text \<open>
  The two calls on the filesystem's connections change both sides. The filesystem's
  default port is TCP 2049. \<^verbatim>\<open>allowDefaultPortTo(other)\<close> is an egress rule of the filesystem
  to the other side and an ingress rule of the other side from the filesystem.
  \<^verbatim>\<open>allowDefaultPortFrom(other)\<close> is an ingress rule of the filesystem from the other side;
  the matching egress rule of the other side is left out by the library, since the host
  group's security group allows all outbound traffic.
\<close>

definition allowDefaultPortTo ::
  "FileSystem \<Rightarrow> AutoScalingGroup \<Rightarrow> FileSystem \<times> AutoScalingGroup" where
  "allowDefaultPortTo fs asg =
     (fs\<lparr>fs_connections := fs_connections fs @ [allowTo (connectionsOf (asg_id asg)) (tcp 2049)]\<rparr>,
      asg\<lparr>asg_connections := asg_connections asg @ [allowFrom (connectionsOf (fs_id fs)) (tcp 2049)]\<rparr>)"

definition allowDefaultPortFrom ::
  "FileSystem \<Rightarrow> AutoScalingGroup \<Rightarrow> FileSystem \<times> AutoScalingGroup" where
  "allowDefaultPortFrom fs asg =
     (fs\<lparr>fs_connections := fs_connections fs @ [allowFrom (connectionsOf (asg_id asg)) (tcp 2049)]\<rparr>,
      asg)"

text \<open>
  The filesystem and the host group after the two calls; no later statement changes
  either.
\<close>

definition connected :: "Env \<Rightarrow> EasyCerverProps \<Rightarrow> FileSystem \<times> AutoScalingGroup" where
  "connected env props =
     (let (fs, asg) = allowDefaultPortTo (newFileSystem props) (newHostAutoScalingGroup env props)
      in allowDefaultPortFrom fs asg)"

definition certFileSystem :: "Env \<Rightarrow> EasyCerverProps \<Rightarrow> FileSystem" where
  "certFileSystem env props = fst (connected env props)"

definition hostAutoScalingGroup :: "Env \<Rightarrow> EasyCerverProps \<Rightarrow> AutoScalingGroup" where
  "hostAutoScalingGroup env props = snd (connected env props)"

definition hostedZone :: "Env \<Rightarrow> EasyCerverProps \<Rightarrow> HostedZone" where
  "hostedZone env props = fromLookup env (hostedZoneDomain props)"

definition records :: "Env \<Rightarrow> EasyCerverProps \<Rightarrow> string list" where
  "records env props = nullish (recordDomainNames props) [zoneName (hostedZone env props)]"

definition aRecords :: "Env \<Rightarrow> EasyCerverProps \<Rightarrow> ARecord list" where
  "aRecords env props =
     map (\<lambda>record.
            \<lparr>ar_id = ''ARecord'' @ record,
             zone = hostedZone env props,
             recordName = record,
             target = [hostInstanceIp_ref env]\<rparr>)
         (records env props)"

definition the_logGroup :: "EasyCerverProps \<Rightarrow> ILogGroup" where
  "the_logGroup props =
     nullish (logGroup props)
       (LogGroup ''LogGroup'' TWO_YEARS (nullish (removalPolicy props) DESTROY))"

definition certbotTag :: "EasyCerverProps \<Rightarrow> string" where
  "certbotTag props = nullish (certbotDockerTag props) ''v1.29.0''"

definition certVolume :: "Env \<Rightarrow> Volume" where
  "certVolume env = \<lparr>volumeName = ''certVolume'', efsFileSystemId = fileSystemId env\<rparr>"

definition certbotCommand :: "Env \<Rightarrow> EasyCerverProps \<Rightarrow> string option list" where
  "certbotCommand env props =
     [Some ''certonly'',
      Some ''--verbose'',
      Some ''--preferred-challenges=dns-01'',
      Some ''--dns-route53'',
      Some ''--dns-route53-propagation-seconds=300'',
      Some ''--non-interactive'',
      Some ''--agree-tos'',
      Some ''--expand'',
      Some ''-m'',
      Some (email props),
      Some ''--cert-name'',
      index0 (records env props)]
     @ map Some (flatMap (\<lambda>domain. [''-d'', domain]) (records env props))"

definition certbotTaskDefinition :: "Env \<Rightarrow> EasyCerverProps \<Rightarrow> Ec2TaskDefinition" where
  "certbotTaskDefinition env props =
     (let td = Ec2TaskDefinition ''CertbotTaskDefinition'';
          td = addToTaskRolePolicy td
                 \<lparr>effect = ALLOW,
                  actions = [''route53:ListHostedZones'', ''route53:GetChange''],
                  resources = [''*'']\<rparr>;
          td = addToTaskRolePolicy td
                 \<lparr>effect = ALLOW,
                  actions = [''route53:ChangeResourceRecordSets''],
                  resources = [hostedZoneArn (hostedZone env props)]\<rparr>;
          (td, certbotContainer) = addContainer td ''CertbotContainer''
                 \<lparr>cd_image = fromRegistry (''certbot/dns-route53:'' @ certbotTag props),
                  containerName = Some ''certbot'',
                  memoryReservationMiB = Some 64,
                  entryPoint = None,
                  command = Some (certbotCommand env props),
                  essential = None,
                  environment = [],
                  logging = Some \<lparr>logs_logGroup = the_logGroup props,
                                  streamPrefix = certbotTag props\<rparr>\<rparr>;
          td = grant ''FileSystem'' td [''elasticfilesystem:ClientWrite''];
          td = addVolume td (certVolume env)
      in addMountPoints td certbotContainer
           \<lparr>sourceVolume = ''certVolume'',
            containerPath = ''/etc/letsencrypt'',
            readOnly = False\<rparr>)"

definition topic :: Topic where
  "topic = \<lparr>topic_id = ''Topic''\<rparr>"

definition subscription :: "EasyCerverProps \<Rightarrow> Subscription" where
  "subscription props =
     \<lparr>sub_id = ''EmailSubscription'', sub_topic = topic_id topic, sub_protocol = EMAIL,
      endpoint = email props\<rparr>"

text \<open>The argument of \<^verbatim>\<open>addCatch\<close>: the publish state, with \<^verbatim>\<open>Fail\<close> as its next state.\<close>

definition sendEmailOnFailure :: "State \<times> State list" where
  "sendEmailOnFailure =
     next_state
       (new_state ''SendEmailOnFailure'' (SnsPublish (topic_id topic) (fromJsonPathAt ''$'')))
       (new_state ''Fail'' Fail)"

definition certbotRunTask :: State where
  "certbotRunTask =
     (let task = new_state ''CreateCertificate''
                   (EcsRunTask ''Cluster'' ''CertbotTaskDefinition'' EcsEc2LaunchTarget RUN_JOB);
          task = addCatch task sendEmailOnFailure \<lparr>catch_errors = None, resultPath = None\<rparr>
      in addRetry task
           \<lparr>retry_errors = None, interval = Some (seconds 20), maxAttempts = None,
            backoffRate = None\<rparr>)"

text \<open>
  The state machine's definition is the run task; its states are the ones reachable from
  it, which are the run task and the chain its catcher leads to.
\<close>

definition certbotStateMachine :: StateMachine where
  "certbotStateMachine =
     \<lparr>sm_id = ''StateMachine'',
      startAt = st_id certbotRunTask,
      states = certbotRunTask # fst sendEmailOnFailure # snd sendEmailOnFailure\<rparr>"

definition certbotScheduleRule :: "EasyCerverProps \<Rightarrow> Rule" where
  "certbotScheduleRule props =
     \<lparr>rule_id = ''CertbotScheduleRule'',
      schedule = days (nullish (certbotScheduleInterval props) 60),
      targets = [''StateMachine'']\<rparr>"

definition sampleSeverTask :: "string list \<Rightarrow> ILogGroup \<Rightarrow> Ec2TaskDefinition" where
  "sampleSeverTask recs lg =
     (let nginxTaskDefinition = Ec2TaskDefinition ''NginxTaskDefinition'';
          (nginxTaskDefinition, nginxContainer) = addContainer nginxTaskDefinition ''NginxContainer''
                 \<lparr>cd_image = fromAsset ''../containers/nginx-proxy'',
                  containerName = Some ''nginx'',
                  memoryReservationMiB = Some 64,
                  entryPoint = None,
                  command = None,
                  essential = Some True,
                  environment =
                    [(''SERVER_NAME'', Some (join '' '' recs)),
                     (''CERT_NAME'', index0 recs)],
                  logging = Some \<lparr>logs_logGroup = lg, streamPrefix = ''nginx-proxy''\<rparr>\<rparr>
      in addPortMappings nginxTaskDefinition nginxContainer
           [\<lparr>hostPort = 80, containerPort = 80, protocol = TCP\<rparr>,
            \<lparr>hostPort = 443, containerPort = 443, protocol = TCP\<rparr>])"

text \<open>
  The command of the helper container: one shell script, passed to \<^verbatim>\<open>/bin/bash -c\<close>. In the
  source a backslash ends each of the first three command lines, so the shell reads them
  and the loop as one list joined by \<^verbatim>\<open>&&\<close>.
\<close>

definition gateScript :: "Env \<Rightarrow> string" where
  \<open>gateScript env =
     ''set -eux'' @ [CHR 0x0A]
     @ ''          aws configure set region '' @ region env @ '' && '' @ [CHR 0x5C, CHR 0x0A]
     @ ''          aws configure set output text && '' @ [CHR 0x5C, CHR 0x0A]
     @ ''          EXECUTION_ARN=$(aws stepfunctions start-execution --state-machine-arn ''
     @ stateMachineArn env @ '' --query executionArn) && '' @ [CHR 0x5C, CHR 0x0A]
     @ ''          until [ $(aws stepfunctions describe-execution --execution-arn "$EXECUTION_ARN" --query status) != RUNNING ];''
     @ [CHR 0x0A]
     @ ''          do'' @ [CHR 0x0A]
     @ ''            echo "Waiting for $EXECUTION_ARN"'' @ [CHR 0x0A]
     @ ''            sleep 10'' @ [CHR 0x0A]
     @ ''          done''\<close>

definition AWSCliContainer :: "Env \<Rightarrow> EasyCerverProps \<Rightarrow> ContainerDefinitionOptions" where
  "AWSCliContainer env props =
     \<lparr>cd_image = fromRegistry (''amazon/aws-cli:'' @ awsCliTag props),
      containerName = Some ''aws-cli'',
      memoryReservationMiB = Some 64,
      entryPoint = Some [''/bin/bash'', ''-c''],
      command = Some [Some (gateScript env)],
      essential = Some False,
      environment = [],
      logging = Some \<lparr>logs_logGroup = the_logGroup props, streamPrefix = awsCliTag props\<rparr>\<rparr>"

definition givenServerTask :: "Env \<Rightarrow> EasyCerverProps \<Rightarrow> Ec2TaskDefinition" where
  "givenServerTask env props =
     nullish (serverTaskDefinition props)
       (sampleSeverTask (records env props) (the_logGroup props))"

text \<open>
  The two calls through \<^verbatim>\<open>defaultContainer?.\<close> do nothing, arguments included, where the
  task definition has no default container: then no container is added either.
\<close>

definition serverTask :: "Env \<Rightarrow> EasyCerverProps \<Rightarrow> Ec2TaskDefinition" where
  "serverTask env props =
     (let td = givenServerTask env props;
          td = grant ''FileSystem'' td [''elasticfilesystem:ClientMount''];
          td = addVolume td (certVolume env);
          td = (case defaultContainer td of
                  None \<Rightarrow> td
                | Some d \<Rightarrow>
                    addMountPoints td d
                      \<lparr>sourceVolume = ''certVolume'',
                       containerPath = ''/etc/letsencrypt'',
                       readOnly = True\<rparr>);
          td = (case defaultContainer td of
                  None \<Rightarrow> td
                | Some d \<Rightarrow>
                    (let (td, gate) = addContainer td ''AWSCliContainer'' (AWSCliContainer env props)
                     in addContainerDependencies td d
                          \<lparr>container = gate, condition = COMPLETE\<rparr>));
          td = grantExecution ''StateMachine'' td [''states:DescribeExecution'']
      in grantStartExecution ''StateMachine'' td)"

definition service :: "Env \<Rightarrow> EasyCerverProps \<Rightarrow> Ec2Service" where
  "service env props =
     \<lparr>svc_id = ''Service'',
      svc_cluster = ''Cluster'',
      svc_taskDefinition = td_id (serverTask env props),
      desiredCount = 1,
      minHealthyPercent = 0,
      maxHealthyPercent = 100,
      circuitBreaker_rollback = True,
      enableExecuteCommand = True\<rparr>"

text \<open>The stack: every resource the constructor declares.\<close>

record EasyCerverStack =
  stack_vpc :: IVpc
  stack_cluster :: Cluster
  stack_hostAutoScalingGroup :: AutoScalingGroup
  stack_hostInstanceIp :: CfnEIP
  stack_certFileSystem :: FileSystem
  stack_aRecords :: "ARecord list"
  stack_logGroup :: ILogGroup
  stack_certbotTaskDefinition :: Ec2TaskDefinition
  stack_topic :: Topic
  stack_subscription :: Subscription
  stack_certbotStateMachine :: StateMachine
  stack_certbotScheduleRule :: Rule
  stack_serverTaskDefinition :: Ec2TaskDefinition
  stack_service :: Ec2Service

definition EasyCerver :: "Env \<Rightarrow> EasyCerverProps \<Rightarrow> EasyCerverStack" where
  "EasyCerver env props =
     \<lparr>stack_vpc = the_vpc props,
      stack_cluster = cluster props,
      stack_hostAutoScalingGroup = hostAutoScalingGroup env props,
      stack_hostInstanceIp = hostInstanceIp env,
      stack_certFileSystem = certFileSystem env props,
      stack_aRecords = aRecords env props,
      stack_logGroup = the_logGroup props,
      stack_certbotTaskDefinition = certbotTaskDefinition env props,
      stack_topic = topic,
      stack_subscription = subscription props,
      stack_certbotStateMachine = certbotStateMachine,
      stack_certbotScheduleRule = certbotScheduleRule props,
      stack_serverTaskDefinition = serverTask env props,
      stack_service = service env props\<rparr>"

section \<open>The helper container's script\<close>

text \<open>
  The script of \<open>gateScript\<close> as the shell runs it under \<^verbatim>\<open>set -eux\<close>. Its commands form
  one \<^verbatim>\<open>&&\<close> list: the two \<^verbatim>\<open>aws configure\<close> calls, the assignment of
  \<^verbatim>\<open>EXECUTION_ARN\<close> from \<^verbatim>\<open>start-execution\<close>, and the \<^verbatim>\<open>until\<close> loop. A command of the list
  that fails ends the list with its exit status, and the list is the last command of the
  script. The loop's test is \<^verbatim>\<open>[ $(describe-execution ...) != RUNNING ]\<close>; its body
  prints a line and sleeps 10 seconds; the loop itself ends with status 0.

  The answers of the command line tool are the script's environment: the exit status of
  each of the first three calls, and what the \<open>n\<close>-th \<^verbatim>\<open>describe-execution\<close> prints (a
  status, or nothing when the call fails).
\<close>

datatype ExecutionStatus = RUNNING | SUCCEEDED | FAILED | TIMED_OUT | ABORTED

record AwsCli =
  configure_region :: nat
  configure_output :: nat
  start_execution :: nat
  describe_execution :: "nat \<Rightarrow> ExecutionStatus option"

text \<open>
  The test \<^verbatim>\<open>[ word != RUNNING ]\<close>. With nothing printed the test has two arguments only,
  which is an error of \<^verbatim>\<open>[\<close> (a status other than 0), so the loop goes on.
\<close>

definition test_ne_RUNNING :: "ExecutionStatus option \<Rightarrow> bool" where
  "test_ne_RUNNING printed = (case printed of None \<Rightarrow> False | Some s \<Rightarrow> s \<noteq> RUNNING)"

text \<open>
  The loop, after \<open>n\<close> polls and \<open>slept\<close> seconds of sleep. It returns the number of
  polls made and the seconds slept, and has no value where the loop never ends.
\<close>

partial_function (option) until_loop ::
  "(nat \<Rightarrow> ExecutionStatus option) \<Rightarrow> nat \<Rightarrow> nat \<Rightarrow> (nat \<times> nat) option" where
  "until_loop describe n slept =
     (if test_ne_RUNNING (describe n) then Some (Suc n, slept)
      else until_loop describe (Suc n) (slept + 10))"

record GateRun =
  exit_status :: nat
  executions_started :: nat
  polls :: nat
  seconds_slept :: nat

definition gate :: "AwsCli \<Rightarrow> GateRun option" where
  "gate aws =
     (if configure_region aws \<noteq> 0 then
        Some \<lparr>exit_status = configure_region aws, executions_started = 0, polls = 0,
              seconds_slept = 0\<rparr>
      else if configure_output aws \<noteq> 0 then
        Some \<lparr>exit_status = configure_output aws, executions_started = 0, polls = 0,
              seconds_slept = 0\<rparr>
      else if start_execution aws \<noteq> 0 then
        Some \<lparr>exit_status = start_execution aws, executions_started = 0, polls = 0,
              seconds_slept = 0\<rparr>
      else
        (case until_loop (describe_execution aws) 0 0 of
           None \<Rightarrow> None
         | Some (p, s) \<Rightarrow>
             Some \<lparr>exit_status = 0, executions_started = 1, polls = p, seconds_slept = s\<rparr>))"

text \<open>
  When a container that depends on another may start, by the condition of the
  dependency: \<^verbatim>\<open>START\<close> once the other has started, \<^verbatim>\<open>COMPLETE\<close> once it has exited,
  \<^verbatim>\<open>SUCCESS\<close> once it has exited with status 0, \<^verbatim>\<open>HEALTHY\<close> once its health check passes.
\<close>

datatype ContainerState = NotStarted | Started bool | Exited nat

fun dependency_satisfied :: "ContainerDependencyCondition \<Rightarrow> ContainerState \<Rightarrow> bool" where
  "dependency_satisfied START st = (st \<noteq> NotStarted)"
| "dependency_satisfied COMPLETE st = (case st of Exited c \<Rightarrow> True | _ \<Rightarrow> False)"
| "dependency_satisfied SUCCESS st = (st = Exited 0)"
| "dependency_satisfied HEALTHY st = (st = Started True)"

text \<open>
  A task definition whose default container, if it has one, is one of its containers.
\<close>

definition well_formed :: "Ec2TaskDefinition \<Rightarrow> bool" where
  "well_formed td =
     (case defaultContainer td of None \<Rightarrow> True | Some d \<Rightarrow> d < length (containers td))"

section \<open>Running the workflow\<close>

text \<open>
  An execution of a state machine, by the rules of the states language. A task state does
  its work on its input. When the work fails, the first retrier that matches the error
  decides: it retries while its attempts are not used up (\<^verbatim>\<open>maxAttempts\<close>, 3 when left
  out), after a wait that starts at its interval and is multiplied by its backoff rate at
  each retry. Otherwise the first catcher that matches leads to its handler, whose input is
  what the catcher's result path makes of the state's input and the error output; with no
  result path (the default is \<^verbatim>\<open>$\<close>, the whole input) the error output replaces the input.
  With no catcher the execution fails.
  A list of errors left out matches every error. A task that succeeds passes its output
  on, or ends the execution with success when it has no next state. \<^verbatim>\<open>Fail\<close> ends the
  execution with failure.

  The work itself (running the job, publishing) is the environment: the outcome of the
  \<open>k\<close>-th attempt at the state of a given name. The fuel bounds the steps.
\<close>

datatype json = JString string | JObject "(string \<times> json) list"

datatype Outcome = Succeeds json | Fails string string

definition error_output :: "string \<Rightarrow> string \<Rightarrow> json" where
  "error_output e c = JObject [(''Error'', JString e), (''Cause'', JString c)]"

datatype Event = Attempt string nat | Waited rat | Published string json

datatype Result = ExecutionSucceeded | ExecutionFailed

fun find_state :: "State list \<Rightarrow> string \<Rightarrow> State option" where
  "find_state [] n = None"
| "find_state (s # ss) n = (if st_id s = n then Some s else find_state ss n)"

definition matches :: "string list option \<Rightarrow> string \<Rightarrow> bool" where
  "matches errs e =
     (case errs of None \<Rightarrow> True | Some es \<Rightarrow> List.member es e \<or> List.member es ''States.ALL'')"

fun toSeconds :: "Duration \<Rightarrow> int" where
  "toSeconds (seconds n) = n"
| "toSeconds (days n) = n * 86400"

text \<open>
  The seconds a retrier waits before its retry number \<open>c\<close> (from 0): its interval (1
  second when left out) times its backoff rate (2.0 when left out) to the power \<open>c\<close>.
\<close>

definition retry_wait :: "RetryProps \<Rightarrow> nat \<Rightarrow> rat" where
  "retry_wait r c =
     of_int (toSeconds (nullish (interval r) (seconds 1))) * nullish (backoffRate r) 2 ^ c"

text \<open>
  The retriers' counters after one more retry and the wait before it, or nothing when the
  error is not retried.
\<close>

fun retry :: "RetryProps list \<Rightarrow> nat list \<Rightarrow> string \<Rightarrow> (nat list \<times> rat) option" where
  "retry [] cs e = None"
| "retry (r # rs) cs e =
     (let c = (case cs of [] \<Rightarrow> 0 | c # _ \<Rightarrow> c) in
      if matches (retry_errors r) e
      then (if c < nullish (maxAttempts r) 3 then Some (Suc c # tl cs, retry_wait r c) else None)
      else map_option (\<lambda>(cs', wt). (c # cs', wt)) (retry rs (tl cs) e))"

fun find_catch :: "(CatchProps \<times> string) list \<Rightarrow> string \<Rightarrow> (CatchProps \<times> string) option" where
  "find_catch [] e = None"
| "find_catch (c # cs) e = (if matches (catch_errors (fst c)) e then Some c else find_catch cs e)"

text \<open>Only the path \<^verbatim>\<open>$\<close> (the whole value) is interpreted; another path has no value here.\<close>

definition catch_input :: "CatchProps \<Rightarrow> json \<Rightarrow> json \<Rightarrow> json option" where
  "catch_input cp inp err =
     (case resultPath cp of
        None \<Rightarrow> Some err
      | Some p \<Rightarrow> if p = ''$'' then Some err else None)"

fun eval_input :: "TaskInput \<Rightarrow> json \<Rightarrow> json option" where
  "eval_input (fromJsonPathAt p) inp = (if p = ''$'' then Some inp else None)"

text \<open>What a successful attempt at a state of the given kind leaves in the trace.\<close>

fun work :: "StateKind \<Rightarrow> json \<Rightarrow> Event list option" where
  "work (EcsRunTask cl td lt ip) inp = Some []"
| "work (SnsPublish tp msg) inp = map_option (\<lambda>m. [Published tp m]) (eval_input msg inp)"
| "work Fail inp = None"

fun exec ::
  "nat \<Rightarrow> State list \<Rightarrow> (string \<Rightarrow> nat \<Rightarrow> Outcome) \<Rightarrow> string \<Rightarrow> json \<Rightarrow> nat list \<Rightarrow> nat
     \<Rightarrow> Event list \<Rightarrow> (Result \<times> Event list) option" where
  "exec 0 sts w sid inp cs k tr = None"
| "exec (Suc fuel) sts w sid inp cs k tr =
     (case find_state sts sid of
        None \<Rightarrow> None
      | Some st \<Rightarrow>
          if st_kind st = Fail then Some (ExecutionFailed, tr)
          else
            (case w sid k of
               Succeeds out \<Rightarrow>
                 (case work (st_kind st) inp of
                    None \<Rightarrow> None
                  | Some evs \<Rightarrow>
                      (case st_next st of
                         None \<Rightarrow> Some (ExecutionSucceeded, tr @ Attempt sid k # evs)
                       | Some nx \<Rightarrow> exec fuel sts w nx out [] 0 (tr @ Attempt sid k # evs)))
             | Fails e c \<Rightarrow>
                 (case retry (st_retries st) cs e of
                    Some (cs', wt) \<Rightarrow>
                      exec fuel sts w sid inp cs' (Suc k) (tr @ [Attempt sid k, Waited wt])
                  | None \<Rightarrow>
                      (case find_catch (st_catches st) e of
                         None \<Rightarrow> Some (ExecutionFailed, tr @ [Attempt sid k])
                       | Some (cp, handler) \<Rightarrow>
                           (case catch_input cp inp (error_output e c) of
                              None \<Rightarrow> None
                            | Some inp' \<Rightarrow>
                                exec fuel sts w handler inp' [] 0 (tr @ [Attempt sid k]))))))"

definition run_workflow ::
  "nat \<Rightarrow> StateMachine \<Rightarrow> (string \<Rightarrow> nat \<Rightarrow> Outcome) \<Rightarrow> json \<Rightarrow> (Result \<times> Event list) option" where
  "run_workflow fuel sm w inp = exec fuel (states sm) w (startAt sm) inp [] 0 []"

fun waits :: "Event list \<Rightarrow> rat list" where
  "waits [] = []"
| "waits (Waited wt # tr) = wt # waits tr"
| "waits (ev # tr) = waits tr"

definition run_waits ::
  "nat \<Rightarrow> StateMachine \<Rightarrow> (string \<Rightarrow> nat \<Rightarrow> Outcome) \<Rightarrow> json \<Rightarrow> rat list option" where
  "run_waits fuel sm w inp =
     (case run_workflow fuel sm w inp of None \<Rightarrow> None | Some r \<Rightarrow> Some (waits (snd r)))"

definition attempts_of :: "string \<Rightarrow> Event list \<Rightarrow> nat" where
  "attempts_of sid tr = length (filter (\<lambda>ev. case ev of Attempt n k \<Rightarrow> n = sid | _ \<Rightarrow> False) tr)"

section \<open>Properties stated about the stack\<close>

text \<open>
  A task definition has a mount of the certificate filesystem at \<^verbatim>\<open>/etc/letsencrypt\<close>,
  read-only or not, when one of its containers has a mount point at that path, with that
  flag, whose source is a volume of the task definition on the filesystem.
\<close>

definition has_cert_mount :: "Env \<Rightarrow> Ec2TaskDefinition \<Rightarrow> bool \<Rightarrow> bool" where
  "has_cert_mount env td ro =
     (\<exists>c \<in> set (containers td). \<exists>mp \<in> set (mountPoints c). \<exists>v \<in> set (volumes td).
        containerPath mp = ''/etc/letsencrypt'' \<and> readOnly mp = ro
        \<and> sourceVolume mp = volumeName v \<and> efsFileSystemId v = fileSystemId env)"

text \<open>A value contains another when it is that value or one of its fields contains it.\<close>

fun jcontains :: "json \<Rightarrow> json \<Rightarrow> bool" where
  "jcontains (JString s) v = (v = JString s)"
| "jcontains (JObject fs) v = (v = JObject fs \<or> (\<exists>f \<in> set fs. jcontains (snd f) v))"

subsection \<open>Example inputs\<close>

definition example_env :: Env where
  "example_env =
     \<lparr>region = ''eu-west-1'',
      uniqueId = ''EasyCerverHostInstanceIp'',
      fromLookup = (\<lambda>domain. \<lparr>zoneName = domain, hostedZoneArn = ''arn:aws:route53:::hostedzone/Z1''\<rparr>),
      hostInstanceIp_ref = ''HostInstanceIp'',
      fileSystemId = ''fs-1'',
      stateMachineArn = ''arn:aws:states:eu-west-1:1:stateMachine:certbot''\<rparr>"

text \<open>Only the two required properties are given.\<close>

definition example_props :: EasyCerverProps where
  "example_props =
     \<lparr>hostedZoneDomain = ''example.com'',
      email = ''ops@example.com'',
      recordDomainNames = None,
      vpc = None,
      securityGroup = None,
      hostInstanceType = None,
      hostInstanceSpotPrice = None,
      logGroup = None,
      certbotDockerTag = None,
      certbotScheduleInterval = None,
      awsCliDockerTag = None,
      removalPolicy = None,
      serverTaskDefinition = None\<rparr>"

text \<open>A security group, a removal policy and two domain names are given.\<close>

definition custom_props :: EasyCerverProps where
  "custom_props =
     example_props
       \<lparr>recordDomainNames := Some [''a.example.com'', ''b.example.com''],
        securityGroup := Some (SuppliedSecurityGroup ''web''),
        removalPolicy := Some RETAIN\<rparr>"

text \<open>A task definition is given that has one container, essential by default.\<close>

definition example_task :: Ec2TaskDefinition where
  "example_task =
     fst (addContainer (Ec2TaskDefinition ''ServerTask'') ''App''
            \<lparr>cd_image = fromRegistry ''httpd:2.4'',
             containerName = None,
             memoryReservationMiB = Some 128,
             entryPoint = None,
             command = None,
             essential = None,
             environment = [],
             logging = None\<rparr>)"

definition props_with_container :: EasyCerverProps where
  "props_with_container = example_props\<lparr>serverTaskDefinition := Some example_task\<rparr>"

text \<open>A task definition is given to which no container has been added yet.\<close>

definition props_without_container :: EasyCerverProps where
  "props_without_container =
     example_props\<lparr>serverTaskDefinition := Some (Ec2TaskDefinition ''ServerTask'')\<rparr>"

text \<open>The execution is running at the first two polls and has failed at the third.\<close>

definition aws_failed_execution :: AwsCli where
  "aws_failed_execution =
     \<lparr>configure_region = 0, configure_output = 0, start_execution = 0,
      describe_execution = (\<lambda>n. if n < 2 then Some RUNNING else Some FAILED)\<rparr>"

definition aws_running_until :: "nat \<Rightarrow> AwsCli" where
  "aws_running_until n =
     \<lparr>configure_region = 0, configure_output = 0, start_execution = 0,
      describe_execution = (\<lambda>i. if i < n then Some RUNNING else Some SUCCEEDED)\<rparr>"

definition aws_never_done :: AwsCli where
  "aws_never_done =
     \<lparr>configure_region = 0, configure_output = 0, start_execution = 0,
      describe_execution = (\<lambda>n. Some RUNNING)\<rparr>"

text \<open>The job fails at every attempt; publishing succeeds.\<close>

definition job_always_fails :: "string \<Rightarrow> nat \<Rightarrow> Outcome" where
  "job_always_fails sid k =
     (if sid = ''CreateCertificate'' then Fails ''States.TaskFailed'' ''exit code 1''
      else Succeeds (JObject []))"

definition trigger_input :: json where
  "trigger_input = JObject [(''source'', JString ''aws.events'')]"

section \<open>Facts about the task definitions\<close>

lemma join_Cons: "join sep (x # xs) = x @ concat (map (\<lambda>y. sep @ y) xs)"
  by (induction sep xs arbitrary: x rule: join.induct) simp_all

lemma join_spaces:
  "join '' '' recs = (case recs of [] \<Rightarrow> [] | d # ds \<Rightarrow> d @ concat (map (\<lambda>y. '' '' @ y) ds))"
  by (cases recs) (simp_all only: list.case join.simps(1) join_Cons)

lemma index0_first: "index0 recs = (case recs of [] \<Rightarrow> None | d # ds \<Rightarrow> Some d)"
  by (cases recs) simp_all

lemma sampleSeverTask_eq:
  "sampleSeverTask recs lg =
     \<lparr>td_id = ''NginxTaskDefinition'',
      containers =
        [\<lparr>cd_id = ''NginxContainer'',
          cd_props =
            \<lparr>cd_image = fromAsset ''../containers/nginx-proxy'',
             containerName = Some ''nginx'',
             memoryReservationMiB = Some 64,
             entryPoint = None,
             command = None,
             essential = Some True,
             environment = [(''SERVER_NAME'', Some (join '' '' recs)), (''CERT_NAME'', index0 recs)],
             logging = Some \<lparr>logs_logGroup = lg, streamPrefix = ''nginx-proxy''\<rparr>\<rparr>,
          portMappings =
            [\<lparr>hostPort = 80, containerPort = 80, protocol = TCP\<rparr>,
             \<lparr>hostPort = 443, containerPort = 443, protocol = TCP\<rparr>],
          mountPoints = [],
          containerDependencies = []\<rparr>],
      defaultContainer = Some 0,
      volumes = [],
      taskRole = []\<rparr>"
  by (simp add: sampleSeverTask_def Ec2TaskDefinition_def addContainer_def addPortMappings_def
      update_container_def Let_def)

lemma served_is_serverTask:
  "stack_serverTaskDefinition (EasyCerver env props) = serverTask env props"
  by (simp add: EasyCerver_def)

lemma serverTask_defaultContainer:
  "defaultContainer (serverTask env props) = defaultContainer (givenServerTask env props)"
  by (simp add: serverTask_def Let_def grant_def addVolume_def grantExecution_def
      grantStartExecution_def addMountPoints_def update_container_def addContainer_def
      addContainerDependencies_def split: option.split)

lemma serverTask_td_id:
  "td_id (serverTask env props) = td_id (givenServerTask env props)"
  by (simp add: serverTask_def Let_def grant_def addVolume_def grantExecution_def
      grantStartExecution_def addMountPoints_def update_container_def addContainer_def
      addContainerDependencies_def split: option.split)

lemma serverTask_volumes:
  "volumes (serverTask env props) = volumes (givenServerTask env props) @ [certVolume env]"
  by (simp add: serverTask_def Let_def grant_def addVolume_def grantExecution_def
      grantStartExecution_def addMountPoints_def update_container_def addContainer_def
      addContainerDependencies_def split: option.split)

lemma serverTask_no_default:
  assumes "defaultContainer (givenServerTask env props) = None"
  shows "containers (serverTask env props) = containers (givenServerTask env props)"
  using assms
  by (simp add: serverTask_def Let_def grant_def addVolume_def grantExecution_def
      grantStartExecution_def)

lemma serverTask_default:
  assumes "defaultContainer (givenServerTask env props) = Some d"
      and "d < length (containers (givenServerTask env props))"
  shows "containers (serverTask env props) =
     (containers (givenServerTask env props))
       [d := (containers (givenServerTask env props) ! d)
          \<lparr>mountPoints := mountPoints (containers (givenServerTask env props) ! d) @
              [\<lparr>sourceVolume = ''certVolume'', containerPath = ''/etc/letsencrypt'',
                readOnly = True\<rparr>],
           containerDependencies :=
             containerDependencies (containers (givenServerTask env props) ! d) @
              [\<lparr>container = length (containers (givenServerTask env props)),
                condition = COMPLETE\<rparr>]\<rparr>]
     @ [\<lparr>cd_id = ''AWSCliContainer'', cd_props = AWSCliContainer env props, portMappings = [],
         mountPoints = [], containerDependencies = []\<rparr>]"
  using assms
  by (simp add: serverTask_def Let_def grant_def addVolume_def grantExecution_def
      grantStartExecution_def addMountPoints_def update_container_def addContainer_def
      addContainerDependencies_def nth_append list_update_append)

lemma given_sample:
  "serverTaskDefinition props = None \<Longrightarrow>
     givenServerTask env props = sampleSeverTask (records env props) (the_logGroup props)"
  by (simp add: givenServerTask_def nullish_def)

lemma given_supplied:
  "serverTaskDefinition props = Some t \<Longrightarrow> givenServerTask env props = t"
  by (simp add: givenServerTask_def nullish_def)

lemma example_given:
  "givenServerTask example_env example_props =
     sampleSeverTask (records example_env example_props) (the_logGroup example_props)"
  by (rule given_sample) (simp add: example_props_def)

lemma example_task_eq:
  "example_task =
     \<lparr>td_id = ''ServerTask'',
      containers =
        [\<lparr>cd_id = ''App'',
          cd_props =
            \<lparr>cd_image = fromRegistry ''httpd:2.4'', containerName = None,
             memoryReservationMiB = Some 128, entryPoint = None, command = None,
             essential = None, environment = [], logging = None\<rparr>,
          portMappings = [], mountPoints = [], containerDependencies = []\<rparr>],
      defaultContainer = Some 0,
      volumes = [],
      taskRole = []\<rparr>"
  by (simp add: example_task_def addContainer_def Ec2TaskDefinition_def Let_def)

lemma sample_served_containers:
  assumes "serverTaskDefinition props = None"
  shows "containers (serverTask env props) =
     [\<lparr>cd_id = ''NginxContainer'',
       cd_props =
         \<lparr>cd_image = fromAsset ''../containers/nginx-proxy'',
          containerName = Some ''nginx'',
          memoryReservationMiB = Some 64,
          entryPoint = None,
          command = None,
          essential = Some True,
          environment =
            [(''SERVER_NAME'', Some (join '' '' (records env props))),
             (''CERT_NAME'', index0 (records env props))],
          logging = Some \<lparr>logs_logGroup = the_logGroup props, streamPrefix = ''nginx-proxy''\<rparr>\<rparr>,
       portMappings =
         [\<lparr>hostPort = 80, containerPort = 80, protocol = TCP\<rparr>,
          \<lparr>hostPort = 443, containerPort = 443, protocol = TCP\<rparr>],
       mountPoints =
         [\<lparr>sourceVolume = ''certVolume'', containerPath = ''/etc/letsencrypt'',
           readOnly = True\<rparr>],
       containerDependencies = [\<lparr>container = 1, condition = COMPLETE\<rparr>]\<rparr>,
      \<lparr>cd_id = ''AWSCliContainer'', cd_props = AWSCliContainer env props, portMappings = [],
       mountPoints = [], containerDependencies = []\<rparr>]"
proof -
  have g: "givenServerTask env props = sampleSeverTask (records env props) (the_logGroup props)"
    using assms by (rule given_sample)
  have d: "defaultContainer (givenServerTask env props) = Some 0"
    "0 < length (containers (givenServerTask env props))"
    by (simp_all add: g sampleSeverTask_eq)
  show ?thesis
    unfolding serverTask_default[OF d] unfolding g sampleSeverTask_eq by simp
qed

lemma certbotTaskDefinition_eq:
  "containers (certbotTaskDefinition env props) =
     [\<lparr>cd_id = ''CertbotContainer'',
       cd_props =
         \<lparr>cd_image = fromRegistry (''certbot/dns-route53:'' @ certbotTag props),
          containerName = Some ''certbot'',
          memoryReservationMiB = Some 64,
          entryPoint = None,
          command = Some (certbotCommand env props),
          essential = None,
          environment = [],
          logging = Some \<lparr>logs_logGroup = the_logGroup props, streamPrefix = certbotTag props\<rparr>\<rparr>,
       portMappings = [],
       mountPoints =
         [\<lparr>sourceVolume = ''certVolume'', containerPath = ''/etc/letsencrypt'',
           readOnly = False\<rparr>],
       containerDependencies = []\<rparr>]"
  "volumes (certbotTaskDefinition env props) = [certVolume env]"
  by (simp_all add: certbotTaskDefinition_def Ec2TaskDefinition_def addToTaskRolePolicy_def
      addContainer_def grant_def addVolume_def addMountPoints_def update_container_def Let_def)

lemma served_gate:
  assumes "well_formed (givenServerTask env props)"
      and "defaultContainer (serverTask env props) = Some d"
  shows "length (containers (serverTask env props))
           = Suc (length (containers (givenServerTask env props)))"
    and "d < length (containers (givenServerTask env props))"
    and "cd_props (last (containers (serverTask env props))) = AWSCliContainer env props"
    and "last (containerDependencies (containers (serverTask env props) ! d)) =
           \<lparr>container = length (containers (givenServerTask env props)), condition = COMPLETE\<rparr>"
proof -
  have d: "defaultContainer (givenServerTask env props) = Some d"
    using assms(2) by (simp add: serverTask_defaultContainer)
  then show lt: "d < length (containers (givenServerTask env props))"
    using assms(1) by (simp add: well_formed_def)
  note c = serverTask_default[OF d lt]
  show "length (containers (serverTask env props))
          = Suc (length (containers (givenServerTask env props)))"
    unfolding c by simp
  show "cd_props (last (containers (serverTask env props))) = AWSCliContainer env props"
    unfolding c by simp
  show "last (containerDependencies (containers (serverTask env props) ! d)) =
           \<lparr>container = length (containers (givenServerTask env props)), condition = COMPLETE\<rparr>"
    unfolding c using lt by (simp add: nth_append)
qed

section \<open>Facts about the host group and the filesystem\<close>

lemma connected_eq:
  "connected env props =
     ((newFileSystem props)
        \<lparr>fs_connections :=
           [allowTo (connectionsOf ''HostInstanceCapacity'') (tcp 2049),
            allowFrom (connectionsOf ''HostInstanceCapacity'') (tcp 2049)]\<rparr>,
      (newHostAutoScalingGroup env props)
        \<lparr>asg_connections := asg_connections (newHostAutoScalingGroup env props) @
           [allowFrom (connectionsOf ''FileSystem'') (tcp 2049)]\<rparr>)"
  by (simp add: connected_def allowDefaultPortTo_def allowDefaultPortFrom_def newFileSystem_def
      newHostAutoScalingGroup_def addCapacity_def Let_def split: option.split)

lemma stack_vpc_eq: "stack_vpc (EasyCerver env props) = the_vpc props"
  by (simp add: EasyCerver_def)

lemma host_group_connections:
  "asg_connections (stack_hostAutoScalingGroup (EasyCerver env props)) =
     (case securityGroup props of
        Some sg \<Rightarrow> []
      | None \<Rightarrow>
          [allowFrom anyIpv4 (tcp 80), allowFrom anyIpv4 (tcp 443),
           allowFrom anyIpv6 (tcp 80), allowFrom anyIpv6 (tcp 443)])
     @ [allowFrom (connectionsOf ''FileSystem'') (tcp 2049)]"
  by (simp add: EasyCerver_def hostAutoScalingGroup_def connected_eq newHostAutoScalingGroup_def
      addCapacity_def allowFromAnyIpv4_def Let_def split: option.split)

lemma filesystem_connections:
  "fs_connections (stack_certFileSystem (EasyCerver env props)) =
     [allowTo (connectionsOf ''HostInstanceCapacity'') (tcp 2049),
      allowFrom (connectionsOf ''HostInstanceCapacity'') (tcp 2049)]"
  by (simp add: EasyCerver_def certFileSystem_def connected_eq)

lemma host_group_securityGroups:
  "asg_securityGroups (stack_hostAutoScalingGroup (EasyCerver env props)) =
     NewSecurityGroup ''InstanceSecurityGroup'' (the_vpc props) True
     # (case securityGroup props of Some sg \<Rightarrow> [sg] | None \<Rightarrow> [])"
  by (simp add: EasyCerver_def hostAutoScalingGroup_def connected_eq newHostAutoScalingGroup_def
      addCapacity_def Let_def split: option.split)

section \<open>Facts about the script and the workflow\<close>

lemma until_loop_finds:
  "test_ne_RUNNING (d (n + k)) \<Longrightarrow> (\<forall>j<k. \<not> test_ne_RUNNING (d (n + j)))
   \<Longrightarrow> until_loop d n s = Some (Suc (n + k), s + 10 * k)"
proof (induction k arbitrary: n s)
  case 0
  then show ?case by (subst until_loop.simps) simp
next
  case (Suc k)
  have first: "\<not> test_ne_RUNNING (d n)" using Suc.prems(2) by force
  have "test_ne_RUNNING (d (Suc n + k))" using Suc.prems(1) by simp
  moreover have "\<forall>j<k. \<not> test_ne_RUNNING (d (Suc n + j))"
  proof (intro allI impI)
    fix j assume "j < k"
    then have "Suc j < Suc k" by simp
    then have "\<not> test_ne_RUNNING (d (n + Suc j))" using Suc.prems(2) by blast
    then show "\<not> test_ne_RUNNING (d (Suc n + j))" by simp
  qed
  ultimately have "until_loop d (Suc n) (s + 10) = Some (Suc (Suc n + k), s + 10 + 10 * k)"
    by (rule Suc.IH)
  then show ?case using first by (subst until_loop.simps) simp
qed

lemma until_loop_ends_only:
  assumes "until_loop d n s = Some r"
  shows "\<exists>k. r = (Suc (n + k), s + 10 * k) \<and> test_ne_RUNNING (d (n + k))
         \<and> (\<forall>j<k. \<not> test_ne_RUNNING (d (n + j)))"
proof (rule until_loop.raw_induct
    [where P = "\<lambda>d n s r. \<exists>k. r = (Suc (n + k), s + 10 * k) \<and> test_ne_RUNNING (d (n + k))
         \<and> (\<forall>j<k. \<not> test_ne_RUNNING (d (n + j)))", OF _ assms])
  fix lp :: "(nat \<Rightarrow> ExecutionStatus option) \<Rightarrow> nat \<Rightarrow> nat \<Rightarrow> (nat \<times> nat) option"
  fix d n s r
  assume IH: "\<And>d n s r. lp d n s = Some r \<Longrightarrow>
     \<exists>k. r = (Suc (n + k), s + 10 * k) \<and> test_ne_RUNNING (d (n + k))
         \<and> (\<forall>j<k. \<not> test_ne_RUNNING (d (n + j)))"
  assume step: "(if test_ne_RUNNING (d n) then Some (Suc n, s) else lp d (Suc n) (s + 10)) = Some r"
  show "\<exists>k. r = (Suc (n + k), s + 10 * k) \<and> test_ne_RUNNING (d (n + k))
         \<and> (\<forall>j<k. \<not> test_ne_RUNNING (d (n + j)))"
  proof (cases "test_ne_RUNNING (d n)")
    case True
    then have "r = (Suc n, s)" using step by simp
    with True have "r = (Suc (n + 0), s + 10 * 0) \<and> test_ne_RUNNING (d (n + 0))
         \<and> (\<forall>j<0. \<not> test_ne_RUNNING (d (n + j)))" by simp
    then show ?thesis by (rule exI)
  next
    case False
    then have "lp d (Suc n) (s + 10) = Some r" using step by simp
    then obtain k where k: "r = (Suc (Suc n + k), s + 10 + 10 * k)"
      "test_ne_RUNNING (d (Suc n + k))" "\<forall>j<k. \<not> test_ne_RUNNING (d (Suc n + j))"
      using IH by blast
    have "\<forall>j<Suc k. \<not> test_ne_RUNNING (d (n + j))"
    proof (intro allI impI)
      fix j assume j: "j < Suc k"
      show "\<not> test_ne_RUNNING (d (n + j))"
      proof (cases j)
        case 0
        then show ?thesis using False by simp
      next
        case (Suc i)
        then have "i < k" using j by simp
        then have "\<not> test_ne_RUNNING (d (Suc n + i))" using k(3) by blast
        then show ?thesis using Suc by simp
      qed
    qed
    with k(1,2) have "r = (Suc (n + Suc k), s + 10 * Suc k) \<and> test_ne_RUNNING (d (n + Suc k))
         \<and> (\<forall>j<Suc k. \<not> test_ne_RUNNING (d (n + j)))" by simp
    then show ?thesis by (rule exI)
  qed
qed

lemma until_loop_forever:
  assumes "\<forall>j. \<not> test_ne_RUNNING (d (n + j))"
  shows "until_loop d n s = None"
proof (cases "until_loop d n s")
  case None
  then show ?thesis .
next
  case (Some r)
  then obtain k where "test_ne_RUNNING (d (n + k))" using until_loop_ends_only by blast
  with assms show ?thesis by blast
qed

lemma exec_mono:
  "exec n sts w sid inp cs k tr = Some r \<Longrightarrow> exec (n + m) sts w sid inp cs k tr = Some r"
proof (induction n arbitrary: sid inp cs k tr)
  case 0
  then show ?case by simp
next
  case (Suc n)
  then show ?case
    by (auto split: option.splits Outcome.splits if_splits prod.splits)
qed

lemma machine_states:
  "states certbotStateMachine =
     [\<lparr>st_id = ''CreateCertificate'',
       st_kind = EcsRunTask ''Cluster'' ''CertbotTaskDefinition'' EcsEc2LaunchTarget RUN_JOB,
       st_retries = [\<lparr>retry_errors = None, interval = Some (seconds 20), maxAttempts = None,
                      backoffRate = None\<rparr>],
       st_catches = [(\<lparr>catch_errors = None, resultPath = None\<rparr>, ''SendEmailOnFailure'')],
       st_next = None\<rparr>,
      \<lparr>st_id = ''SendEmailOnFailure'', st_kind = SnsPublish ''Topic'' (fromJsonPathAt ''$''),
       st_retries = [], st_catches = [], st_next = Some ''Fail''\<rparr>,
      \<lparr>st_id = ''Fail'', st_kind = Fail, st_retries = [], st_catches = [], st_next = None\<rparr>]"
  by (simp add: certbotStateMachine_def certbotRunTask_def sendEmailOnFailure_def new_state_def
      next_state_def addCatch_def addRetry_def topic_def Let_def)

lemma machine_start: "startAt certbotStateMachine = ''CreateCertificate''"
  by (simp add: certbotStateMachine_def certbotRunTask_def sendEmailOnFailure_def new_state_def
      next_state_def addCatch_def addRetry_def topic_def Let_def)


lemma run_exhausted:
  assumes "w ''CreateCertificate'' 0 = Fails e0 c0"
      and "w ''CreateCertificate'' 1 = Fails e1 c1"
      and "w ''CreateCertificate'' 2 = Fails e2 c2"
      and "w ''CreateCertificate'' 3 = Fails e3 c3"
      and "w ''SendEmailOnFailure'' 0 = Succeeds out"
  shows "run_workflow 6 certbotStateMachine w inp =
     Some (ExecutionFailed,
       [Attempt ''CreateCertificate'' 0, Waited 20, Attempt ''CreateCertificate'' 1,
        Waited 40, Attempt ''CreateCertificate'' 2, Waited 80,
        Attempt ''CreateCertificate'' 3, Attempt ''SendEmailOnFailure'' 0, Published ''Topic'' (error_output e3 c3)])"
  unfolding run_workflow_def machine_states machine_start
  using assms
  by (simp add: eval_nat_numeral matches_def nullish_def catch_input_def retry_wait_def)


lemma run_total:
  "\<exists>res tr. run_workflow 6 certbotStateMachine w inp = Some (res, tr)
      \<and> attempts_of ''CreateCertificate'' tr \<le> 4
      \<and> attempts_of ''SendEmailOnFailure'' tr \<le> 1
      \<and> (waits tr = [] \<or> waits tr = [20] \<or> waits tr = [20, 40] \<or> waits tr = [20, 40, 80])"
  unfolding run_workflow_def machine_states machine_start
  by (simp add: eval_nat_numeral matches_def nullish_def catch_input_def attempts_of_def
      retry_wait_def split: Outcome.split)

lemma run_four_failures:
  assumes "w ''CreateCertificate'' 0 = Fails e0 c0"
      and "w ''CreateCertificate'' 1 = Fails e1 c1"
      and "w ''CreateCertificate'' 2 = Fails e2 c2"
      and "w ''CreateCertificate'' 3 = Fails e3 c3"
  shows "\<exists>r. run_workflow 6 certbotStateMachine w inp = Some r \<and> waits (snd r) = [20, 40, 80]"
  unfolding run_workflow_def machine_states machine_start
  using assms
  by (simp add: eval_nat_numeral matches_def nullish_def catch_input_def retry_wait_def
      split: Outcome.split)

lemma gateScript_starts_the_machine:
  \<open>\<exists>pre post. gateScript env =
     pre @ ''EXECUTION_ARN=$(aws stepfunctions start-execution --state-machine-arn ''
       @ stateMachineArn env @ post\<close>
  unfolding gateScript_def
  by (intro exI[of _ "''set -eux'' @ [CHR 0x0A]
     @ ''          aws configure set region '' @ region env @ '' && '' @ [CHR 0x5C, CHR 0x0A]
     @ ''          aws configure set output text && '' @ [CHR 0x5C, CHR 0x0A]
     @ ''          ''"] exI) simp

lemma gate_ok:
  assumes "configure_region aws = 0" "configure_output aws = 0" "start_execution aws = 0"
  shows "gate aws =
     (case until_loop (describe_execution aws) 0 0 of
        None \<Rightarrow> None
      | Some (p, s) \<Rightarrow>
          Some \<lparr>exit_status = 0, executions_started = 1, polls = p, seconds_slept = s\<rparr>)"
  using assms by (simp add: gate_def)

lemma gate_exits_zero:
  assumes "configure_region aws = 0" "configure_output aws = 0" "start_execution aws = 0"
      and "test_ne_RUNNING (describe_execution aws k)"
      and "\<forall>j<k. \<not> test_ne_RUNNING (describe_execution aws j)"
  shows "gate aws =
     Some \<lparr>exit_status = 0, executions_started = 1, polls = Suc k, seconds_slept = 10 * k\<rparr>"
proof -
  have "until_loop (describe_execution aws) 0 0 = Some (Suc (0 + k), 0 + 10 * k)"
    using assms(4,5) by (intro until_loop_finds) simp_all
  then show ?thesis by (simp add: gate_ok[OF assms(1-3)])
qed

lemma gate_waits_forever:
  assumes "configure_region aws = 0" "configure_output aws = 0" "start_execution aws = 0"
      and "\<forall>i. \<not> test_ne_RUNNING (describe_execution aws i)"
  shows "gate aws = None"
proof -
  have "until_loop (describe_execution aws) 0 0 = None"
    using assms(4) by (intro until_loop_forever) simp
  then show ?thesis by (simp add: gate_ok[OF assms(1-3)])
qed

lemma gate_ends_only:
  assumes "configure_region aws = 0" "configure_output aws = 0" "start_execution aws = 0"
      and "gate aws = Some r"
  shows "\<exists>k s. describe_execution aws k = Some s \<and> s \<noteq> RUNNING
           \<and> (\<forall>j<k. \<not> test_ne_RUNNING (describe_execution aws j))
           \<and> polls r = Suc k \<and> seconds_slept r = 10 * k \<and> exit_status r = 0
           \<and> executions_started r = 1"
proof -
  obtain p t where pt: "until_loop (describe_execution aws) 0 0 = Some (p, t)"
    and r: "r = \<lparr>exit_status = 0, executions_started = 1, polls = p, seconds_slept = t\<rparr>"
    using assms(4) by (auto simp add: gate_ok[OF assms(1-3)] split: option.splits)
  obtain k where k: "(p, t) = (Suc (0 + k), 0 + 10 * k)"
    "test_ne_RUNNING (describe_execution aws (0 + k))"
    "\<forall>j<k. \<not> test_ne_RUNNING (describe_execution aws (0 + j))"
    using until_loop_ends_only[OF pt] by blast
  from k(2) obtain s where s: "describe_execution aws k = Some s" "s \<noteq> RUNNING"
    by (auto simp add: test_ne_RUNNING_def split: option.splits)
  show ?thesis
    using k(1,3) s r by (intro exI[of _ k] exI[of _ s]) simp
qed

lemma run_workflow_more_fuel:
  "run_workflow n sm w inp = Some r \<Longrightarrow> run_workflow (n + m) sm w inp = Some r"
  unfolding run_workflow_def by (rule exec_mono)

lemma stack_machine: "stack_certbotStateMachine (EasyCerver env props) = certbotStateMachine"
  by (simp add: EasyCerver_def)

section \<open>The startup gate\<close>

text \<open>
  C1. Where the served task definition has a default container, the constructor adds the
  helper container (not essential, running \<open>gateScript\<close> under \<^verbatim>\<open>/bin/bash -c\<close>) as the
  last container, and makes the default container depend on it with the condition
  \<^verbatim>\<open>COMPLETE\<close>. The script's \<^verbatim>\<open>start-execution\<close> names the state machine of the stack.
  When its three first commands succeed, the script starts one execution, polls its
  status every 10 seconds while the status printed is \<^verbatim>\<open>RUNNING\<close> (or nothing is printed),
  and at the first other status \<open>s\<close>, be it \<^verbatim>\<open>SUCCEEDED\<close> or \<^verbatim>\<open>FAILED\<close>, exits with status
  0. The condition \<^verbatim>\<open>COMPLETE\<close> is satisfied by an exit with any status \<open>c\<close>, so in no
  configuration does the outcome of the workflow keep the served container from starting.
\<close>

theorem startup_gate_exits_whatever_the_workflow_did:
  \<open>(well_formed (givenServerTask env props)
      \<and> defaultContainer (stack_serverTaskDefinition (EasyCerver env props)) = Some d \<longrightarrow>
      cd_props (last (containers (stack_serverTaskDefinition (EasyCerver env props))))
        = AWSCliContainer env props
      \<and> last (containerDependencies
                (containers (stack_serverTaskDefinition (EasyCerver env props)) ! d))
        = \<lparr>container = length (containers (stack_serverTaskDefinition (EasyCerver env props))) - 1,
           condition = COMPLETE\<rparr>)
   \<and> entryPoint (AWSCliContainer env props) = Some [''/bin/bash'', ''-c'']
   \<and> command (AWSCliContainer env props) = Some [Some (gateScript env)]
   \<and> essential (AWSCliContainer env props) = Some False
   \<and> (\<exists>pre post. gateScript env =
         pre @ ''EXECUTION_ARN=$(aws stepfunctions start-execution --state-machine-arn ''
           @ stateMachineArn env @ post)
   \<and> (configure_region aws = 0 \<and> configure_output aws = 0 \<and> start_execution aws = 0
        \<and> describe_execution aws k = Some s \<and> s \<noteq> RUNNING
        \<and> (\<forall>j<k. \<not> test_ne_RUNNING (describe_execution aws j)) \<longrightarrow>
      gate aws =
        Some \<lparr>exit_status = 0, executions_started = 1, polls = Suc k, seconds_slept = 10 * k\<rparr>)
   \<and> dependency_satisfied COMPLETE (Exited c)\<close>
proof -
  have config: "cd_props (last (containers (serverTask env props))) = AWSCliContainer env props
      \<and> last (containerDependencies (containers (serverTask env props) ! d))
        = \<lparr>container = length (containers (serverTask env props)) - 1, condition = COMPLETE\<rparr>"
    if "well_formed (givenServerTask env props)" "defaultContainer (serverTask env props) = Some d"
    using served_gate[OF that] by simp
  have script: "gate aws =
        Some \<lparr>exit_status = 0, executions_started = 1, polls = Suc k, seconds_slept = 10 * k\<rparr>"
    if "configure_region aws = 0" "configure_output aws = 0" "start_execution aws = 0"
       "describe_execution aws k = Some s" "s \<noteq> RUNNING"
       "\<forall>j<k. \<not> test_ne_RUNNING (describe_execution aws j)"
    using that by (intro gate_exits_zero) (simp_all add: test_ne_RUNNING_def)
  have helper: "entryPoint (AWSCliContainer env props) = Some [''/bin/bash'', ''-c'']"
    "command (AWSCliContainer env props) = Some [Some (gateScript env)]"
    "essential (AWSCliContainer env props) = Some False"
    by (simp_all add: AWSCliContainer_def)
  show ?thesis
    unfolding served_is_serverTask
    using config script helper gateScript_starts_the_machine[of env] by simp
qed

text \<open>
  With only the required properties, the generated task's default container is the first
  one and depends on the helper, the second; an execution that has failed at the third
  poll lets the script exit with status 0 after 20 seconds of sleep.
\<close>

theorem startup_gate_exits_witness:
  "cd_props (last (containers (stack_serverTaskDefinition (EasyCerver example_env example_props))))
     = AWSCliContainer example_env example_props
   \<and> last (containerDependencies
             (containers (stack_serverTaskDefinition (EasyCerver example_env example_props)) ! 0))
     = \<lparr>container = 1, condition = COMPLETE\<rparr>
   \<and> describe_execution aws_failed_execution 2 = Some FAILED
   \<and> gate aws_failed_execution =
       Some \<lparr>exit_status = 0, executions_started = 1, polls = 3, seconds_slept = 20\<rparr>
   \<and> dependency_satisfied COMPLETE (Exited 0)"
proof -
  have wf: "well_formed (givenServerTask example_env example_props)"
    by (simp add: example_given sampleSeverTask_eq well_formed_def)
  have dc: "defaultContainer (stack_serverTaskDefinition (EasyCerver example_env example_props))
      = Some 0"
    by (simp add: served_is_serverTask serverTask_defaultContainer example_given
        sampleSeverTask_eq)
  have len: "length (containers (stack_serverTaskDefinition (EasyCerver example_env example_props)))
      = 2"
    using served_gate(1)[OF wf dc[unfolded served_is_serverTask]]
    by (simp add: served_is_serverTask example_given sampleSeverTask_eq)
  have polls: "\<forall>j<2. \<not> test_ne_RUNNING (describe_execution aws_failed_execution j)"
    by (simp add: aws_failed_execution_def test_ne_RUNNING_def)
  show ?thesis
    using startup_gate_exits_whatever_the_workflow_did
      [where env = example_env and props = example_props and d = 0
        and aws = aws_failed_execution and k = 2 and s = FAILED and c = 0] wf dc len polls
    by (simp add: aws_failed_execution_def)
qed

text \<open>
  C5. In every configuration the helper's command is the same script. Its loop has no
  bound: while no poll prints a status other than \<^verbatim>\<open>RUNNING\<close> the script does not end;
  when it ends, some poll \<open>k\<close> printed another status, no earlier one did, and it has
  slept 10 seconds after each of the \<open>k\<close> earlier polls; and for every \<open>n\<close> there is an
  execution it polls \<open>n + 1\<close> times, sleeping \<open>10 * n\<close> seconds.
\<close>

theorem gate_polls_without_timeout:
  "command (AWSCliContainer env props) = Some [Some (gateScript env)]
   \<and> (configure_region aws = 0 \<and> configure_output aws = 0 \<and> start_execution aws = 0
        \<and> (\<forall>i. \<not> test_ne_RUNNING (describe_execution aws i)) \<longrightarrow>
      gate aws = None)
   \<and> (configure_region aws = 0 \<and> configure_output aws = 0 \<and> start_execution aws = 0
        \<and> gate aws = Some r \<longrightarrow>
      (\<exists>k s. describe_execution aws k = Some s \<and> s \<noteq> RUNNING
           \<and> (\<forall>j<k. \<not> test_ne_RUNNING (describe_execution aws j))
           \<and> polls r = Suc k \<and> seconds_slept r = 10 * k))
   \<and> gate (aws_running_until n) =
       Some \<lparr>exit_status = 0, executions_started = 1, polls = Suc n, seconds_slept = 10 * n\<rparr>"
proof -
  have forever: "gate aws = None"
    if "configure_region aws = 0" "configure_output aws = 0" "start_execution aws = 0"
       "\<forall>i. \<not> test_ne_RUNNING (describe_execution aws i)"
    using that by (rule gate_waits_forever)
  have only: "\<exists>k s. describe_execution aws k = Some s \<and> s \<noteq> RUNNING
           \<and> (\<forall>j<k. \<not> test_ne_RUNNING (describe_execution aws j))
           \<and> polls r = Suc k \<and> seconds_slept r = 10 * k"
    if "configure_region aws = 0" "configure_output aws = 0" "start_execution aws = 0"
       "gate aws = Some r"
    using gate_ends_only[OF that] by blast
  have unbounded: "gate (aws_running_until n) =
       Some \<lparr>exit_status = 0, executions_started = 1, polls = Suc n, seconds_slept = 10 * n\<rparr>"
    by (rule gate_exits_zero) (simp_all add: aws_running_until_def test_ne_RUNNING_def)
  have cmd: "command (AWSCliContainer env props) = Some [Some (gateScript env)]"
    by (simp add: AWSCliContainer_def)
  show ?thesis
    using forever only unbounded cmd by blast
qed

text \<open>
  An execution that stays running keeps the script from ending; one that has failed at
  the third poll ends it after three polls and 20 seconds of sleep.
\<close>

theorem gate_polls_without_timeout_witness:
  "gate aws_never_done = None
   \<and> gate aws_failed_execution =
       Some \<lparr>exit_status = 0, executions_started = 1, polls = 3, seconds_slept = 20\<rparr>
   \<and> (\<exists>k s. describe_execution aws_failed_execution k = Some s \<and> s \<noteq> RUNNING
         \<and> (3::nat) = Suc k \<and> (20::nat) = 10 * k)"
proof -
  have g: "gate aws_failed_execution =
       Some \<lparr>exit_status = 0, executions_started = 1, polls = 3, seconds_slept = 20\<rparr>"
    by (simp add: gate_def aws_failed_execution_def until_loop.simps test_ne_RUNNING_def)
  have never: "\<forall>i. \<not> test_ne_RUNNING (describe_execution aws_never_done i)"
    by (simp add: aws_never_done_def test_ne_RUNNING_def)
  have a: "gate aws_never_done = None"
    using gate_polls_without_timeout[where aws = aws_never_done] never
    by (simp add: aws_never_done_def)
  have b: "\<exists>k s. describe_execution aws_failed_execution k = Some s \<and> s \<noteq> RUNNING
         \<and> (3::nat) = Suc k \<and> (20::nat) = 10 * k"
    using gate_polls_without_timeout[where aws = aws_failed_execution
        and r = "\<lparr>exit_status = 0, executions_started = 1, polls = 3, seconds_slept = 20\<rparr>"] g
    by (simp add: aws_failed_execution_def)
  show ?thesis using a b g by simp
qed

section \<open>The certificate filesystem's mounts\<close>

text \<open>
  C2, as stated, at a configuration: a task definition is supplied that has no container
  yet. The constructor adds the volume to it, but the mount point goes to the default
  container only, and there is none: the served task definition ends with no read-only
  mount of the filesystem.
\<close>

theorem served_task_without_default_container_has_no_mount:
  "serverTaskDefinition props_without_container = Some (Ec2TaskDefinition ''ServerTask'')
   \<and> well_formed (Ec2TaskDefinition ''ServerTask'')
   \<and> certVolume example_env
        \<in> set (volumes (stack_serverTaskDefinition (EasyCerver example_env props_without_container)))
   \<and> \<not> has_cert_mount example_env
        (stack_serverTaskDefinition (EasyCerver example_env props_without_container)) True"
proof -
  have given: "serverTaskDefinition props_without_container = Some (Ec2TaskDefinition ''ServerTask'')"
    by (simp add: props_without_container_def example_props_def)
  then have "givenServerTask example_env props_without_container = Ec2TaskDefinition ''ServerTask''"
    by (rule given_supplied)
  then have "containers (serverTask example_env props_without_container) = []"
    using serverTask_no_default[of example_env props_without_container]
    by (simp add: Ec2TaskDefinition_def)
  then have "\<not> has_cert_mount example_env (serverTask example_env props_without_container) True"
    by (simp add: has_cert_mount_def)
  moreover have "well_formed (Ec2TaskDefinition ''ServerTask'')"
    by (simp add: well_formed_def Ec2TaskDefinition_def)
  ultimately show ?thesis
    using given by (simp add: served_is_serverTask serverTask_volumes)
qed

text \<open>
  C2, amended. In every configuration the issuance task definition has a read-write (and
  no read-only) mount of the certificate filesystem at \<^verbatim>\<open>/etc/letsencrypt\<close>, and the
  served task definition has the filesystem as a volume. The served task definition has a
  read-only mount of it at the same path, on its default container, when it is the
  generated one or a supplied one with a default container \<open>d\<close>; a supplied task
  definition with no default container keeps its containers as they are.
\<close>

theorem certificate_filesystem_mounts:
  "has_cert_mount env (stack_certbotTaskDefinition (EasyCerver env props)) False
   \<and> \<not> has_cert_mount env (stack_certbotTaskDefinition (EasyCerver env props)) True
   \<and> certVolume env \<in> set (volumes (stack_serverTaskDefinition (EasyCerver env props)))
   \<and> (serverTaskDefinition props = None \<longrightarrow>
        has_cert_mount env (stack_serverTaskDefinition (EasyCerver env props)) True)
   \<and> (serverTaskDefinition props = Some t \<and> well_formed t \<and> defaultContainer t = Some d \<longrightarrow>
        \<lparr>sourceVolume = ''certVolume'', containerPath = ''/etc/letsencrypt'', readOnly = True\<rparr>
          \<in> set (mountPoints (containers (stack_serverTaskDefinition (EasyCerver env props)) ! d))
        \<and> has_cert_mount env (stack_serverTaskDefinition (EasyCerver env props)) True)
   \<and> (serverTaskDefinition props = Some t \<and> defaultContainer t = None \<longrightarrow>
        containers (stack_serverTaskDefinition (EasyCerver env props)) = containers t)"
proof -
  let ?td = "serverTask env props"
  let ?mp = "\<lparr>sourceVolume = ''certVolume'', containerPath = ''/etc/letsencrypt'', readOnly = True\<rparr>"
  have certbot: "has_cert_mount env (certbotTaskDefinition env props) False"
    "\<not> has_cert_mount env (certbotTaskDefinition env props) True"
    by (simp_all add: has_cert_mount_def certbotTaskDefinition_eq certVolume_def)
  have vol: "certVolume env \<in> set (volumes ?td)"
    by (simp add: serverTask_volumes)
  have mount: "?mp \<in> set (mountPoints (containers ?td ! i)) \<and> has_cert_mount env ?td True"
    if i: "defaultContainer (givenServerTask env props) = Some i"
      "i < length (containers (givenServerTask env props))" for i
  proof -
    have len: "i < length (containers ?td)"
      using i by (simp add: serverTask_default)
    have in_mp: "?mp \<in> set (mountPoints (containers ?td ! i))"
      using i by (simp add: serverTask_default nth_append)
    have "containers ?td ! i \<in> set (containers ?td)"
      using len by simp
    then have "has_cert_mount env ?td True"
      unfolding has_cert_mount_def
      using in_mp vol
      by (intro bexI[of _ "containers ?td ! i"] bexI[of _ ?mp] bexI[of _ "certVolume env"])
        (simp_all add: certVolume_def)
    with in_mp show ?thesis by simp
  qed
  have sample: "has_cert_mount env ?td True" if "serverTaskDefinition props = None"
    using mount[of 0] that by (simp add: given_sample sampleSeverTask_eq)
  have supplied: "?mp \<in> set (mountPoints (containers ?td ! d)) \<and> has_cert_mount env ?td True"
    if "serverTaskDefinition props = Some t" "well_formed t" "defaultContainer t = Some d"
    using mount[of d] that by (simp add: given_supplied well_formed_def)
  have none: "containers ?td = containers t"
    if "serverTaskDefinition props = Some t" "defaultContainer t = None"
    using that serverTask_no_default[of env props] by (simp add: given_supplied)
  show ?thesis
    using certbot vol sample supplied none by (simp add: EasyCerver_def)
qed

text \<open>
  The generated task and a supplied task with one container get the read-only mount; a
  supplied task with no container stays without containers.
\<close>

theorem certificate_filesystem_mounts_witness:
  "has_cert_mount example_env
     (stack_serverTaskDefinition (EasyCerver example_env example_props)) True
   \<and> has_cert_mount example_env
     (stack_certbotTaskDefinition (EasyCerver example_env example_props)) False
   \<and> has_cert_mount example_env
     (stack_serverTaskDefinition (EasyCerver example_env props_with_container)) True
   \<and> containers (stack_serverTaskDefinition (EasyCerver example_env props_without_container)) = []"
proof -
  have a: "serverTaskDefinition example_props = None"
    by (simp add: example_props_def)
  have b: "serverTaskDefinition props_with_container = Some example_task"
    "defaultContainer example_task = Some 0" "well_formed example_task"
    by (simp_all add: props_with_container_def example_props_def example_task_eq well_formed_def)
  have c: "serverTaskDefinition props_without_container = Some (Ec2TaskDefinition ''ServerTask'')"
    "defaultContainer (Ec2TaskDefinition ''ServerTask'') = None"
    "containers (Ec2TaskDefinition ''ServerTask'') = []"
    by (simp_all add: props_without_container_def example_props_def Ec2TaskDefinition_def)
  show ?thesis
    using certificate_filesystem_mounts[where env = example_env and props = example_props]
      certificate_filesystem_mounts[where env = example_env and props = props_with_container
        and t = example_task and d = 0]
      certificate_filesystem_mounts[where env = example_env and props = props_without_container
        and t = "Ec2TaskDefinition ''ServerTask''"]
      a b c
    by simp
qed

section \<open>The single host\<close>

text \<open>
  C3. Whatever the properties and the resolved values, the host capacity group of the
  stack has minimum capacity 1 and maximum capacity 1.
\<close>

theorem host_capacity_is_one:
  "minCapacity (stack_hostAutoScalingGroup (EasyCerver env props)) = 1
   \<and> maxCapacity (stack_hostAutoScalingGroup (EasyCerver env props)) = 1"
  by (simp add: EasyCerver_def hostAutoScalingGroup_def connected_eq newHostAutoScalingGroup_def
      addCapacity_def Let_def split: option.split)

section \<open>The host's security group\<close>

text \<open>
  C10, as stated, at a configuration: a security group is supplied. The host group still
  gets an ingress rule of the construct's own, TCP 2049 from the certificate filesystem,
  by the call \<^verbatim>\<open>allowDefaultPortTo(hostAutoScalingGroup)\<close> on the filesystem's connections,
  and the filesystem gets one from the host group by \<^verbatim>\<open>allowDefaultPortFrom\<close>.
\<close>

theorem supplied_security_group_still_gets_filesystem_ingress:
  "securityGroup custom_props = Some (SuppliedSecurityGroup ''web'')
   \<and> asg_connections (stack_hostAutoScalingGroup (EasyCerver example_env custom_props)) =
       [allowFrom (connectionsOf ''FileSystem'') (tcp 2049)]
   \<and> fs_connections (stack_certFileSystem (EasyCerver example_env custom_props)) =
       [allowTo (connectionsOf ''HostInstanceCapacity'') (tcp 2049),
        allowFrom (connectionsOf ''HostInstanceCapacity'') (tcp 2049)]"
  by (simp add: host_group_connections filesystem_connections custom_props_def
      example_props_def)

text \<open>
  C10, amended. With a security group supplied, the host group has that group beside the
  security group the capacity call made, and no ingress rule for TCP 80 or 443; with none
  supplied, it has the capacity call's group alone and the four rules TCP 80 and 443 from
  any IPv4 and from any IPv6 address. In both cases it has one more ingress rule, TCP
  2049 from the certificate filesystem, and the filesystem has an egress rule to and an
  ingress rule from the host group on that port. So an ingress rule is on the host
  group's connections exactly when it is that one, or the option is left out and it is
  one of the four.
\<close>

theorem security_group_and_ingress_rules:
  "(securityGroup props = Some sg \<longrightarrow>
      asg_securityGroups (stack_hostAutoScalingGroup (EasyCerver env props)) =
        [NewSecurityGroup ''InstanceSecurityGroup'' (stack_vpc (EasyCerver env props)) True, sg]
      \<and> asg_connections (stack_hostAutoScalingGroup (EasyCerver env props)) =
          [allowFrom (connectionsOf ''FileSystem'') (tcp 2049)])
   \<and> (securityGroup props = None \<longrightarrow>
      asg_securityGroups (stack_hostAutoScalingGroup (EasyCerver env props)) =
        [NewSecurityGroup ''InstanceSecurityGroup'' (stack_vpc (EasyCerver env props)) True]
      \<and> asg_connections (stack_hostAutoScalingGroup (EasyCerver env props)) =
          [allowFrom anyIpv4 (tcp 80), allowFrom anyIpv4 (tcp 443),
           allowFrom anyIpv6 (tcp 80), allowFrom anyIpv6 (tcp 443),
           allowFrom (connectionsOf ''FileSystem'') (tcp 2049)])
   \<and> fs_connections (stack_certFileSystem (EasyCerver env props)) =
       [allowTo (connectionsOf ''HostInstanceCapacity'') (tcp 2049),
        allowFrom (connectionsOf ''HostInstanceCapacity'') (tcp 2049)]
   \<and> (allowFrom peer port
         \<in> set (asg_connections (stack_hostAutoScalingGroup (EasyCerver env props))))
       = (securityGroup props = None \<and> (peer = anyIpv4 \<or> peer = anyIpv6)
            \<and> (port = tcp 80 \<or> port = tcp 443)
          \<or> peer = connectionsOf ''FileSystem'' \<and> port = tcp 2049)"
proof (cases "securityGroup props")
  case None
  then show ?thesis
    by (auto simp add: host_group_connections host_group_securityGroups stack_vpc_eq
        filesystem_connections)
next
  case (Some g)
  then show ?thesis
    by (auto simp add: host_group_connections host_group_securityGroups stack_vpc_eq
        filesystem_connections)
qed

text \<open>With the group \<open>web\<close> supplied, and with only the required properties.\<close>

theorem security_group_and_ingress_rules_witness:
  "asg_securityGroups (stack_hostAutoScalingGroup (EasyCerver example_env custom_props))
     = [NewSecurityGroup ''InstanceSecurityGroup'' (Vpc ''Vpc'' 0 [(''PublicSubnet'', PUBLIC)]) True,
        SuppliedSecurityGroup ''web'']
   \<and> asg_connections (stack_hostAutoScalingGroup (EasyCerver example_env custom_props)) =
       [allowFrom (connectionsOf ''FileSystem'') (tcp 2049)]
   \<and> asg_securityGroups (stack_hostAutoScalingGroup (EasyCerver example_env example_props))
     = [NewSecurityGroup ''InstanceSecurityGroup'' (Vpc ''Vpc'' 0 [(''PublicSubnet'', PUBLIC)]) True]
   \<and> asg_connections (stack_hostAutoScalingGroup (EasyCerver example_env example_props)) =
       [allowFrom anyIpv4 (tcp 80), allowFrom anyIpv4 (tcp 443),
        allowFrom anyIpv6 (tcp 80), allowFrom anyIpv6 (tcp 443),
        allowFrom (connectionsOf ''FileSystem'') (tcp 2049)]"
proof -
  have vpc: "stack_vpc (EasyCerver example_env custom_props) = Vpc ''Vpc'' 0 [(''PublicSubnet'', PUBLIC)]"
    "stack_vpc (EasyCerver example_env example_props) = Vpc ''Vpc'' 0 [(''PublicSubnet'', PUBLIC)]"
    by (simp_all add: EasyCerver_def the_vpc_def nullish_def custom_props_def example_props_def)
  show ?thesis
    using security_group_and_ingress_rules[where props = custom_props and env = example_env
        and sg = "SuppliedSecurityGroup ''web''"]
      security_group_and_ingress_rules[where props = example_props and env = example_env]
    unfolding vpc
    by (simp add: example_props_def custom_props_def)
qed

section \<open>The DNS records\<close>

text \<open>
  C6. The stack has one A record for each entry of the resolved domain list, in the
  list's order, named by the entry and targeting the reference of the host's address.
  The resolved list is \<^verbatim>\<open>recordDomainNames\<close> when it is given, and otherwise the list of the
  looked-up zone's name alone. The records' construct ids differ from one another exactly
  when the entries do.
\<close>

theorem one_A_record_per_domain:
  "stack_aRecords (EasyCerver env props) =
     map (\<lambda>d. \<lparr>ar_id = ''ARecord'' @ d, zone = fromLookup env (hostedZoneDomain props),
               recordName = d, target = [hostInstanceIp_ref env]\<rparr>)
       (case recordDomainNames props of
          Some ds \<Rightarrow> ds
        | None \<Rightarrow> [zoneName (fromLookup env (hostedZoneDomain props))])
   \<and> length (stack_aRecords (EasyCerver env props)) =
       (case recordDomainNames props of Some ds \<Rightarrow> length ds | None \<Rightarrow> 1)
   \<and> map recordName (stack_aRecords (EasyCerver env props)) = records env props
   \<and> records env props =
       (case recordDomainNames props of
          Some ds \<Rightarrow> ds
        | None \<Rightarrow> [zoneName (fromLookup env (hostedZoneDomain props))])
   \<and> distinct (map ar_id (stack_aRecords (EasyCerver env props))) = distinct (records env props)"
proof -
  have "map ar_id (stack_aRecords (EasyCerver env props))
      = map (\<lambda>d. ''ARecord'' @ d) (records env props)"
    by (simp add: EasyCerver_def aRecords_def comp_def)
  moreover have "inj_on (\<lambda>d. ''ARecord'' @ d) (set (records env props))"
    by (rule inj_onI) simp
  ultimately have ids: "distinct (map ar_id (stack_aRecords (EasyCerver env props)))
      = distinct (records env props)"
    by (simp add: distinct_map)
  show ?thesis
    using ids
    by (simp add: EasyCerver_def aRecords_def records_def hostedZone_def nullish_def comp_def
        split: option.split)
qed

section \<open>The generated task\<close>

text \<open>
  C8. With no task definition supplied, the task that \<open>sampleSeverTask\<close> generates from
  the resolved domain list has one container, with the two port mappings 80 to 80 and
  443 to 443, both TCP, and the environment \<^verbatim>\<open>SERVER_NAME\<close>, the list's entries with a
  space between them, and \<^verbatim>\<open>CERT_NAME\<close>, the list's first entry (undefined for the empty
  list). In the stack that container keeps its port mappings and environment; the
  constructor has added the helper container to the task, with no port mapping and an
  empty environment.
\<close>

theorem sample_task_ports_and_environment:
  assumes "serverTaskDefinition props = None"
  shows "length (containers (sampleSeverTask (records env props) (the_logGroup props))) = 1
     \<and> map portMappings (containers (sampleSeverTask (records env props) (the_logGroup props))) =
         [[\<lparr>hostPort = 80, containerPort = 80, protocol = TCP\<rparr>,
           \<lparr>hostPort = 443, containerPort = 443, protocol = TCP\<rparr>]]
     \<and> map (\<lambda>c. environment (cd_props c))
           (containers (sampleSeverTask (records env props) (the_logGroup props))) =
         [[(''SERVER_NAME'',
            Some (case records env props of
                    [] \<Rightarrow> []
                  | d # ds \<Rightarrow> d @ concat (map (\<lambda>y. '' '' @ y) ds))),
           (''CERT_NAME'', case records env props of [] \<Rightarrow> None | d # ds \<Rightarrow> Some d)]]
     \<and> td_id (stack_serverTaskDefinition (EasyCerver env props))
         = td_id (sampleSeverTask (records env props) (the_logGroup props))
     \<and> map cd_id (containers (stack_serverTaskDefinition (EasyCerver env props))) =
         [''NginxContainer'', ''AWSCliContainer'']
     \<and> map portMappings (containers (stack_serverTaskDefinition (EasyCerver env props))) =
         [[\<lparr>hostPort = 80, containerPort = 80, protocol = TCP\<rparr>,
           \<lparr>hostPort = 443, containerPort = 443, protocol = TCP\<rparr>],
          []]
     \<and> map (\<lambda>c. environment (cd_props c))
           (containers (stack_serverTaskDefinition (EasyCerver env props))) =
         [[(''SERVER_NAME'',
            Some (case records env props of
                    [] \<Rightarrow> []
                  | d # ds \<Rightarrow> d @ concat (map (\<lambda>y. '' '' @ y) ds))),
           (''CERT_NAME'', case records env props of [] \<Rightarrow> None | d # ds \<Rightarrow> Some d)],
          []]"
proof -
  have helper_env: "environment (AWSCliContainer env props) = []"
    by (simp add: AWSCliContainer_def)
  have same_task: "td_id (serverTask env props)
      = td_id (sampleSeverTask (records env props) (the_logGroup props))"
    by (simp add: serverTask_td_id given_sample[OF assms])
  show ?thesis
    unfolding served_is_serverTask same_task sample_served_containers[OF assms]
      sampleSeverTask_eq
    by (simp add: helper_env join_spaces[symmetric] index0_first[symmetric])
qed

text \<open>With two domain names given and no task definition.\<close>

theorem sample_task_ports_and_environment_witness:
  "map (\<lambda>c. environment (cd_props c))
      (containers (stack_serverTaskDefinition (EasyCerver example_env custom_props))) =
     [[(''SERVER_NAME'', Some ''a.example.com b.example.com''),
       (''CERT_NAME'', Some ''a.example.com'')],
      []]
   \<and> map portMappings (containers (stack_serverTaskDefinition (EasyCerver example_env custom_props))) =
     [[\<lparr>hostPort = 80, containerPort = 80, protocol = TCP\<rparr>,
       \<lparr>hostPort = 443, containerPort = 443, protocol = TCP\<rparr>],
      []]
   \<and> length (containers (sampleSeverTask (records example_env custom_props)
                (the_logGroup custom_props))) = 1"
proof -
  have n: "serverTaskDefinition custom_props = None"
    by (simp add: custom_props_def example_props_def)
  have r: "records example_env custom_props = [''a.example.com'', ''b.example.com'']"
    by (simp add: records_def custom_props_def example_props_def nullish_def)
  show ?thesis
    using sample_task_ports_and_environment[OF n, of example_env] unfolding r by simp
qed

section \<open>The removal policy\<close>

text \<open>
  C9. With the removal policy left out or given as \<^verbatim>\<open>DESTROY\<close>, the certificate filesystem
  has the policy \<^verbatim>\<open>DESTROY\<close>, and so has the log group the stack creates when none is
  supplied. With another policy \<open>p\<close> given, both have \<open>p\<close>, which is not \<^verbatim>\<open>DESTROY\<close>.
\<close>

theorem removal_policy_of_filesystem_and_log_group:
  "(removalPolicy props = None \<or> removalPolicy props = Some DESTROY \<longrightarrow>
      fs_removalPolicy (stack_certFileSystem (EasyCerver env props)) = DESTROY
      \<and> (logGroup props = None \<longrightarrow>
           stack_logGroup (EasyCerver env props) = LogGroup ''LogGroup'' TWO_YEARS DESTROY))
   \<and> (removalPolicy props = Some p \<and> p \<noteq> DESTROY \<longrightarrow>
      fs_removalPolicy (stack_certFileSystem (EasyCerver env props)) = p
      \<and> fs_removalPolicy (stack_certFileSystem (EasyCerver env props)) \<noteq> DESTROY
      \<and> (logGroup props = None \<longrightarrow>
           stack_logGroup (EasyCerver env props) = LogGroup ''LogGroup'' TWO_YEARS p))"
  by (auto simp add: EasyCerver_def certFileSystem_def connected_eq newFileSystem_def
      the_logGroup_def nullish_def split: option.split)

text \<open>With only the required properties, and with \<^verbatim>\<open>RETAIN\<close> given.\<close>

theorem removal_policy_of_filesystem_and_log_group_witness:
  "fs_removalPolicy (stack_certFileSystem (EasyCerver example_env example_props)) = DESTROY
   \<and> stack_logGroup (EasyCerver example_env example_props) = LogGroup ''LogGroup'' TWO_YEARS DESTROY
   \<and> fs_removalPolicy (stack_certFileSystem (EasyCerver example_env custom_props)) = RETAIN
   \<and> stack_logGroup (EasyCerver example_env custom_props) = LogGroup ''LogGroup'' TWO_YEARS RETAIN"
  using removal_policy_of_filesystem_and_log_group[where props = example_props and env = example_env]
    removal_policy_of_filesystem_and_log_group[where props = custom_props and env = example_env
      and p = RETAIN]
  by (simp add: example_props_def custom_props_def)

section \<open>The renewal workflow\<close>

text \<open>
  C4, as stated, at an input: the job fails at every attempt, in an execution started
  with the input \<open>trigger_input\<close>. The message published to the topic is the error output
  of the last attempt (its \<^verbatim>\<open>Error\<close> and \<^verbatim>\<open>Cause\<close>); the input that started the execution
  does not occur in it.
\<close>

theorem failure_message_is_the_error_output:
  "run_workflow 6 (stack_certbotStateMachine (EasyCerver example_env example_props))
      job_always_fails trigger_input =
     Some (ExecutionFailed,
       [Attempt ''CreateCertificate'' 0, Waited 20, Attempt ''CreateCertificate'' 1,
        Waited 40, Attempt ''CreateCertificate'' 2, Waited 80,
        Attempt ''CreateCertificate'' 3, Attempt ''SendEmailOnFailure'' 0,
        Published ''Topic'' (error_output ''States.TaskFailed'' ''exit code 1'')])
   \<and> \<not> jcontains (error_output ''States.TaskFailed'' ''exit code 1'') trigger_input"
proof -
  have "run_workflow 6 certbotStateMachine job_always_fails trigger_input =
     Some (ExecutionFailed,
       [Attempt ''CreateCertificate'' 0, Waited 20, Attempt ''CreateCertificate'' 1,
        Waited 40, Attempt ''CreateCertificate'' 2, Waited 80,
        Attempt ''CreateCertificate'' 3, Attempt ''SendEmailOnFailure'' 0,
        Published ''Topic'' (error_output ''States.TaskFailed'' ''exit code 1'')])"
    by (rule run_exhausted) (simp_all add: job_always_fails_def)
  moreover have "\<not> jcontains (error_output ''States.TaskFailed'' ''exit code 1'') trigger_input"
    by (simp add: error_output_def trigger_input_def)
  ultimately show ?thesis by (simp add: stack_machine)
qed

text \<open>
  C4, amended. When the job fails at its first attempt and at its three retries (made
  after waits of 20, 40 and 80 seconds), the workflow publishes to the topic the whole input of the publish state, which is the
  error output of the last attempt (the catcher has no result path), and then ends in the
  \<^verbatim>\<open>Fail\<close> state. The run task's only catcher leads to the publish state; the publish state
  has no retrier and no catcher and goes on to \<^verbatim>\<open>Fail\<close>, which has none either; and in
  every execution the publish state is attempted at most once.
\<close>

theorem exhausted_retries_notify_then_fail:
  "(w ''CreateCertificate'' 0 = Fails e0 c0 \<and> w ''CreateCertificate'' 1 = Fails e1 c1
      \<and> w ''CreateCertificate'' 2 = Fails e2 c2 \<and> w ''CreateCertificate'' 3 = Fails e3 c3
      \<and> w ''SendEmailOnFailure'' 0 = Succeeds out \<longrightarrow>
      run_workflow (6 + m) (stack_certbotStateMachine (EasyCerver env props)) w inp =
        Some (ExecutionFailed,
          [Attempt ''CreateCertificate'' 0, Waited 20, Attempt ''CreateCertificate'' 1,
           Waited 40, Attempt ''CreateCertificate'' 2, Waited 80,
           Attempt ''CreateCertificate'' 3, Attempt ''SendEmailOnFailure'' 0, Published ''Topic'' (error_output e3 c3)]))
   \<and> map (\<lambda>st. (st_id st, st_catches st))
        (states (stack_certbotStateMachine (EasyCerver env props))) =
       [(''CreateCertificate'',
         [(\<lparr>catch_errors = None, resultPath = None\<rparr>, ''SendEmailOnFailure'')]),
        (''SendEmailOnFailure'', []),
        (''Fail'', [])]
   \<and> map (\<lambda>st. (st_id st, st_kind st, st_retries st, st_next st))
        (tl (states (stack_certbotStateMachine (EasyCerver env props)))) =
       [(''SendEmailOnFailure'', SnsPublish ''Topic'' (fromJsonPathAt ''$''), [], Some ''Fail''),
        (''Fail'', Fail, [], None)]
   \<and> (\<exists>res tr. run_workflow (6 + m) (stack_certbotStateMachine (EasyCerver env props)) w inp
                  = Some (res, tr)
         \<and> attempts_of ''SendEmailOnFailure'' tr \<le> 1)"
proof -
  have run: "run_workflow (6 + m) certbotStateMachine w inp =
        Some (ExecutionFailed,
          [Attempt ''CreateCertificate'' 0, Waited 20, Attempt ''CreateCertificate'' 1,
           Waited 40, Attempt ''CreateCertificate'' 2, Waited 80,
           Attempt ''CreateCertificate'' 3, Attempt ''SendEmailOnFailure'' 0, Published ''Topic'' (error_output e3 c3)])"
    if "w ''CreateCertificate'' 0 = Fails e0 c0" "w ''CreateCertificate'' 1 = Fails e1 c1"
       "w ''CreateCertificate'' 2 = Fails e2 c2" "w ''CreateCertificate'' 3 = Fails e3 c3"
       "w ''SendEmailOnFailure'' 0 = Succeeds out"
    using that by (intro run_workflow_more_fuel run_exhausted)
  obtain res tr where total: "run_workflow 6 certbotStateMachine w inp = Some (res, tr)"
    "attempts_of ''SendEmailOnFailure'' tr \<le> 1"
    using run_total[of w inp] by blast
  have once: "\<exists>res tr. run_workflow (6 + m) certbotStateMachine w inp = Some (res, tr)
         \<and> attempts_of ''SendEmailOnFailure'' tr \<le> 1"
    using run_workflow_more_fuel[OF total(1)] total(2) by blast
  have shape: "map (\<lambda>st. (st_id st, st_catches st)) (states certbotStateMachine) =
       [(''CreateCertificate'',
         [(\<lparr>catch_errors = None, resultPath = None\<rparr>, ''SendEmailOnFailure'')]),
        (''SendEmailOnFailure'', []),
        (''Fail'', [])]"
    "map (\<lambda>st. (st_id st, st_kind st, st_retries st, st_next st)) (tl (states certbotStateMachine)) =
       [(''SendEmailOnFailure'', SnsPublish ''Topic'' (fromJsonPathAt ''$''), [], Some ''Fail''),
        (''Fail'', Fail, [], None)]"
    by (simp_all add: machine_states)
  show ?thesis
    unfolding stack_machine using run once shape by blast
qed

text \<open>The job fails at every attempt with the same error; publishing succeeds.\<close>

theorem exhausted_retries_notify_then_fail_witness:
  "job_always_fails ''CreateCertificate'' 3 = Fails ''States.TaskFailed'' ''exit code 1''
   \<and> job_always_fails ''SendEmailOnFailure'' 0 = Succeeds (JObject [])
   \<and> run_workflow 6 (stack_certbotStateMachine (EasyCerver example_env example_props))
      job_always_fails trigger_input =
     Some (ExecutionFailed,
       [Attempt ''CreateCertificate'' 0, Waited 20, Attempt ''CreateCertificate'' 1,
        Waited 40, Attempt ''CreateCertificate'' 2, Waited 80,
        Attempt ''CreateCertificate'' 3, Attempt ''SendEmailOnFailure'' 0,
        Published ''Topic'' (error_output ''States.TaskFailed'' ''exit code 1'')])"
  using exhausted_retries_notify_then_fail
    [where w = job_always_fails and m = 0 and env = example_env and props = example_props
      and inp = trigger_input and ?e0.0 = "''States.TaskFailed''" and ?c0.0 = "''exit code 1''"
      and ?e1.0 = "''States.TaskFailed''" and ?c1.0 = "''exit code 1''"
      and ?e2.0 = "''States.TaskFailed''" and ?c2.0 = "''exit code 1''"
      and ?e3.0 = "''States.TaskFailed''" and ?c3.0 = "''exit code 1''"
      and out = "JObject []"]
  by (simp add: job_always_fails_def)

text \<open>
  C7, as stated, at an input: the job fails at every attempt. The waits before the three
  retries are 20, 40 and 80 seconds, not 20 seconds each.
\<close>

theorem retry_waits_double:
  "run_waits 6 (stack_certbotStateMachine (EasyCerver example_env example_props))
      job_always_fails trigger_input = Some [20, 40, 80]"
proof -
  have "run_workflow 6 certbotStateMachine job_always_fails trigger_input =
     Some (ExecutionFailed,
       [Attempt ''CreateCertificate'' 0, Waited 20, Attempt ''CreateCertificate'' 1,
        Waited 40, Attempt ''CreateCertificate'' 2, Waited 80,
        Attempt ''CreateCertificate'' 3, Attempt ''SendEmailOnFailure'' 0,
        Published ''Topic'' (error_output ''States.TaskFailed'' ''exit code 1'')])"
    by (rule run_exhausted) (simp_all add: job_always_fails_def)
  then show ?thesis by (simp add: run_waits_def stack_machine)
qed

text \<open>
  C7, amended. In every configuration the run task has one retrier, whose interval is
  set to 20 seconds and whose maximum of attempts and backoff rate are left out; the
  state machine is the same whatever the properties and the resolved values, so no
  option changes the interval. The interval is the wait before the first retry only: by
  the default backoff rate of 2.0 the wait before retry number \<open>c\<close> (from 0) is
  \<open>20 * 2 ^ c\<close> seconds. By the default of 3 retries every execution ends, having
  attempted the job at most 4 times, with waits that are the first of 20, 40, 80
  seconds; when the job fails four times they are all three.
\<close>

theorem retry_interval_starts_at_twenty_seconds:
  "map (\<lambda>st. (st_id st, st_retries st)) (states (stack_certbotStateMachine (EasyCerver env props))) =
     [(''CreateCertificate'',
       [\<lparr>retry_errors = None, interval = Some (seconds 20), maxAttempts = None,
         backoffRate = None\<rparr>]),
      (''SendEmailOnFailure'', []),
      (''Fail'', [])]
   \<and> stack_certbotStateMachine (EasyCerver env props)
       = stack_certbotStateMachine (EasyCerver env' props')
   \<and> retry_wait
        \<lparr>retry_errors = None, interval = Some (seconds 20), maxAttempts = None,
         backoffRate = None\<rparr> c = 20 * 2 ^ c
   \<and> (\<exists>res tr. run_workflow (6 + m) (stack_certbotStateMachine (EasyCerver env props)) w inp
                  = Some (res, tr)
         \<and> attempts_of ''CreateCertificate'' tr \<le> 4
         \<and> (waits tr = [] \<or> waits tr = [20] \<or> waits tr = [20, 40]
              \<or> waits tr = [20, 40, 80]))
   \<and> (w ''CreateCertificate'' 0 = Fails e0 c0 \<and> w ''CreateCertificate'' 1 = Fails e1 c1
        \<and> w ''CreateCertificate'' 2 = Fails e2 c2 \<and> w ''CreateCertificate'' 3 = Fails e3 c3 \<longrightarrow>
      run_waits (6 + m) (stack_certbotStateMachine (EasyCerver env props)) w inp
        = Some [20, 40, 80])"
proof -
  obtain res tr where total: "run_workflow 6 certbotStateMachine w inp = Some (res, tr)"
    "attempts_of ''CreateCertificate'' tr \<le> 4"
    "waits tr = [] \<or> waits tr = [20] \<or> waits tr = [20, 40] \<or> waits tr = [20, 40, 80]"
    using run_total[of w inp] by blast
  have bounded: "\<exists>res tr. run_workflow (6 + m) certbotStateMachine w inp = Some (res, tr)
         \<and> attempts_of ''CreateCertificate'' tr \<le> 4
         \<and> (waits tr = [] \<or> waits tr = [20] \<or> waits tr = [20, 40]
              \<or> waits tr = [20, 40, 80])"
    using run_workflow_more_fuel[OF total(1)] total(2,3) by blast
  have all: "run_waits (6 + m) certbotStateMachine w inp = Some [20, 40, 80]"
    if fails: "w ''CreateCertificate'' 0 = Fails e0 c0" "w ''CreateCertificate'' 1 = Fails e1 c1"
       "w ''CreateCertificate'' 2 = Fails e2 c2" "w ''CreateCertificate'' 3 = Fails e3 c3"
  proof -
    obtain r where r: "run_workflow 6 certbotStateMachine w inp = Some r"
      "waits (snd r) = [20, 40, 80]"
      using run_four_failures[where w = w and inp = inp] fails by blast
    show ?thesis
      using run_workflow_more_fuel[OF r(1), of m] r(2) by (simp add: run_waits_def)
  qed
  have wait: "retry_wait
        \<lparr>retry_errors = None, interval = Some (seconds 20), maxAttempts = None,
         backoffRate = None\<rparr> c = 20 * 2 ^ c"
    by (simp add: retry_wait_def nullish_def)
  show ?thesis
    unfolding stack_machine using bounded all wait by (simp add: machine_states)
qed

text \<open>The job fails at every attempt: four attempts, and waits of 20, 40 and 80 seconds.\<close>

theorem retry_interval_starts_at_twenty_seconds_witness:
  "job_always_fails ''CreateCertificate'' 3 = Fails ''States.TaskFailed'' ''exit code 1''
   \<and> run_waits 6 (stack_certbotStateMachine (EasyCerver example_env example_props))
        job_always_fails trigger_input = Some [20, 40, 80]
   \<and> retry_wait
        \<lparr>retry_errors = None, interval = Some (seconds 20), maxAttempts = None,
         backoffRate = None\<rparr> 2 = 80"
  using retry_interval_starts_at_twenty_seconds
    [where w = job_always_fails and m = 0 and env = example_env and props = example_props
      and inp = trigger_input and c = 2
      and ?e0.0 = "''States.TaskFailed''" and ?c0.0 = "''exit code 1''"
      and ?e1.0 = "''States.TaskFailed''" and ?c1.0 = "''exit code 1''"
      and ?e2.0 = "''States.TaskFailed''" and ?c2.0 = "''exit code 1''"
      and ?e3.0 = "''States.TaskFailed''" and ?c3.0 = "''exit code 1''"]
  by (simp add: job_always_fails_def)

end
